theory Spec2Isabelle
  imports Complex_Main
begin

section \<open>Python primitives used by the orchestration layer\<close>

text \<open>
  Strings are character lists. The case mappings \<open>str.lower\<close> and \<open>str.upper\<close> are
  modelled on ASCII text: the letters A-Z and a-z are mapped, every other character is
  left as it is. Python floats that hold money amounts are modelled by exact rationals
  (no rounding error, no NaN, no infinities). The imports between the modules are taken
  to succeed, so that each module works with the configuration and the functions of the
  others and not with its fallback stubs. A call that may recurse without end is a
  partial function into \<open>option\<close>, with \<open>None\<close> for a call that never returns.
\<close>

definition lower_char :: "char \<Rightarrow> char" where
  "lower_char c =
     (let n = (of_char c :: nat) in if 65 \<le> n \<and> n \<le> 90 then char_of (n + 32) else c)"

definition upper_char :: "char \<Rightarrow> char" where
  "upper_char c =
     (let n = (of_char c :: nat) in if 97 \<le> n \<and> n \<le> 122 then char_of (n - 32) else c)"

definition str_lower :: "string \<Rightarrow> string" where
  "str_lower s = map lower_char s"

definition str_upper :: "string \<Rightarrow> string" where
  "str_upper s = map upper_char s"

text \<open>\<open>s.startswith(p)\<close>\<close>

fun startswith :: "string \<Rightarrow> string \<Rightarrow> bool" where
  "startswith s [] = True"
| "startswith [] (p # ps) = False"
| "startswith (c # cs) (p # ps) = (c = p \<and> startswith cs ps)"

text \<open>\<open>needle in hay\<close> on strings: the needle occurs as a contiguous run.\<close>

fun str_in :: "string \<Rightarrow> string \<Rightarrow> bool" where
  "str_in needle [] = (needle = [])"
| "str_in needle (c # cs) = (startswith (c # cs) needle \<or> str_in needle cs)"

text \<open>\<open>any(kw in text for kw in kws)\<close>\<close>

definition any_in :: "string list \<Rightarrow> string \<Rightarrow> bool" where
  "any_in kws text = list_ex (\<lambda>kw. str_in kw text) kws"

text \<open>\<open>s.split(':', 1)[1]\<close>: what follows the first colon. Both call sites are guarded
  by a \<open>startswith\<close> test on a prefix that ends in a colon, so the index 1 exists.\<close>

definition split_colon_1 :: "string \<Rightarrow> string" where
  "split_colon_1 s = tl (dropWhile (\<lambda>c. c \<noteq> CHR '':'') s)"


section \<open>models.py: static configuration and the tier classifier\<close>

definition MODEL_FALLBACKS :: "(string \<times> string) list" where
  "MODEL_FALLBACKS =
     [(''gemini-flash'', ''gemini-flash-fallback''),
      (''gemini-flash-latest'', ''gemini-flash''),
      (''deepseek-v3'', ''gemini-flash''),
      (''kimi-researcher'', ''kimi-synthesis''),
      (''kimi-synthesis'', ''claude-sonnet''),
      (''kimi-deep'', ''kimi-synthesis''),
      (''claude-sonnet'', ''opus-synthesis''),
      (''opus-synthesis'', ''claude-sonnet''),
      (''gemini-architect'', ''gemini-flash''),
      (''gemini-3-pro-semifinal'', ''claude-sonnet''),
      (''gemini-pro'', ''claude-sonnet''),
      (''gemini-pro-latest'', ''gemini-pro''),
      (''perplexity-online'', ''gemini-flash''),
      (''perplexity-researcher'', ''gemini-flash'')]"

text \<open>The \<open>"models"\<close> entry of each tier of \<open>TIER_CONFIG\<close>.\<close>

definition TIER_CONFIG_models :: "(string \<times> string list) list" where
  "TIER_CONFIG_models =
     [(''tier_1'', [''claude-sonnet'']),
      (''tier_2'', [''perplexity-researcher'', ''claude-sonnet'']),
      (''tier_3'', [''kimi-researcher'', ''perplexity-online'', ''deepseek-v3'',
                    ''gemini-flash'', ''claude-sonnet'', ''gemini-pro'', ''opus-synthesis'']),
      (''tier_3_lite'', [''kimi-researcher'', ''deepseek-v3'', ''claude-sonnet'', ''gemini-pro''])]"

definition ARCHITECTURAL_KEYWORDS :: "string list" where
  "ARCHITECTURAL_KEYWORDS =
     [''architecture'', ''design'', ''refactor'', ''restructure'',
      ''system'', ''module'', ''component'', ''integration'', ''api design'', ''database design'',
      ''schema'', ''workflow'', ''pipeline'', ''strategy'', ''pattern'',
      '' vs '', '' versus '', '' or '', '' compare '', '' which '', '' should we use '',
      ''microservices'', ''monolith'', ''postgresql'', ''mongodb'', ''mysql'']"

definition SIMPLE_IMPLEMENTATION_KEYWORDS :: "string list" where
  "SIMPLE_IMPLEMENTATION_KEYWORDS =
     [''implement a'', ''implement the'', ''create a'', ''create the'',
      ''write a'', ''write the'', ''add a'', ''add the'',
      ''fix this'', ''debug'', ''syntax error'', ''indentation'']"

definition EXTERNAL_DOCS_KEYWORDS :: "string list" where
  "EXTERNAL_DOCS_KEYWORDS =
     [''pricing'', ''latest version'', ''current docs'', ''documentation'',
      ''api reference'', ''changelog'', ''release notes'', ''official docs'']"

text \<open>\<open>classify_query_tier(query, token_count, metadata)\<close>; the last two arguments are
  accepted and never read.\<close>

definition classify_query_tier :: "string \<Rightarrow> int \<Rightarrow> 'm \<Rightarrow> string" where
  "classify_query_tier query token_count metadata =
     (let query_lower = str_lower query in
      if str_in ''@council_v2'' query_lower then ''tier_3''
      else if str_in ''@council_lite'' query_lower then ''tier_3_lite''
      else if str_in ''@research'' query_lower then ''tier_2''
      else
        (let has_simple_impl = any_in SIMPLE_IMPLEMENTATION_KEYWORDS query_lower;
             has_arch_keywords = any_in ARCHITECTURAL_KEYWORDS query_lower;
             has_docs_keywords = any_in EXTERNAL_DOCS_KEYWORDS query_lower
         in if has_simple_impl then ''tier_1''
            else if has_docs_keywords then ''tier_2''
            else if has_arch_keywords then ''tier_3''
            else ''tier_1''))"

datatype py_error = ValueError string

text \<open>\<open>get_models_for_tier\<close> raises \<open>ValueError\<close> for a tier that is not configured.\<close>

definition get_models_for_tier :: "string \<Rightarrow> py_error + string list" where
  "get_models_for_tier tier =
     (case map_of TIER_CONFIG_models tier of
        None \<Rightarrow> Inl (ValueError (''Unknown tier: '' @ tier))
      | Some ms \<Rightarrow> Inr ms)"


section \<open>opus_gatekeeper.py: conditional invocation of the most expensive model\<close>

datatype OpusDecision = INVOKE | SKIP | BUDGET_BLOCK

record GatekeeperResult =
  gr_decision :: OpusDecision
  gr_reason :: string
  gr_confidence :: rat
  gr_category :: string
  gr_tier :: string
  gr_budget_remaining :: rat
  gr_budget_threshold :: rat

record OpusGatekeeper =
  gk_monthly_budget :: rat
  gk_current_monthly_spend :: rat
  gk_budget_threshold :: rat
  gk_budget_gate :: rat

definition BUDGET_GATE_THRESHOLD :: rat where
  "BUDGET_GATE_THRESHOLD = 40 / 100"

definition MIN_OPUS_BUDGET :: rat where
  "MIN_OPUS_BUDGET = 50 / 100"

definition MANDATORY_KEYWORDS :: "(string \<times> string list) list" where
  "MANDATORY_KEYWORDS =
     [(''strategy'',
        [''strategy'', ''strategic'', ''roadmap'', ''vision'', ''long-term'',
         ''architecture decision'', ''system design'', ''tech stack choice'',
         ''should we'', ''which approach'', ''evaluate options'', ''compare'']),
      (''architecture'',
        [''architecture'', ''design'', ''refactor'', ''restructure'', ''pattern'',
         ''system'', ''module'', ''component'', ''integration'', ''api design'',
         ''database design'', ''schema'', ''workflow'', ''pipeline'']),
      (''client_communication'',
        [''client'', ''customer'', ''stakeholder'', ''presentation'', ''proposal'',
         ''explain to'', ''communicate'', ''report'', ''executive summary'']),
      (''executive'',
        [''executive'', ''leadership'', ''decision'', ''approve'', ''authorize'',
         ''budget'', ''timeline'', ''resource allocation'', ''priority''])]"

definition SKIP_KEYWORDS :: "(string \<times> string list) list" where
  "SKIP_KEYWORDS =
     [(''code_implementation'',
        [''implement this'', ''write code'', ''create function'', ''add method'',
         ''implement'', ''build this'', ''code this'']),
      (''simple_debugging'',
        [''fix this bug'', ''debug'', ''error in'', ''not working'',
         ''throws error'', ''fails'', ''broken'']),
      (''syntax_error'',
        [''syntax error'', ''parse error'', ''indentation'', ''missing'',
         ''unexpected token'', ''invalid syntax''])]"

text \<open>\<open>OpusGatekeeper.__init__\<close>: the budget gate is fixed at construction.\<close>

definition OpusGatekeeper_init :: "rat \<Rightarrow> rat \<Rightarrow> rat \<Rightarrow> OpusGatekeeper" where
  "OpusGatekeeper_init monthly_budget current_monthly_spend budget_threshold =
     \<lparr> gk_monthly_budget = monthly_budget,
       gk_current_monthly_spend = current_monthly_spend,
       gk_budget_threshold = budget_threshold,
       gk_budget_gate = monthly_budget * budget_threshold \<rparr>"

text \<open>The nested loops of \<open>_classify_category\<close> over one keyword table, in the table's
  order: the first category with a keyword (lowered) occurring in the lowered query.\<close>

fun first_category :: "(string \<times> string list) list \<Rightarrow> string \<Rightarrow> string option" where
  "first_category [] query_lower = None"
| "first_category ((category, keywords) # rest) query_lower =
     (if list_ex (\<lambda>keyword. str_in (str_lower keyword) query_lower) keywords
      then Some category
      else first_category rest query_lower)"

definition classify_category :: "string \<Rightarrow> string \<times> rat" where
  "classify_category query =
     (let query_lower = str_lower query in
      case first_category MANDATORY_KEYWORDS query_lower of
        Some category \<Rightarrow> (''MANDATORY:'' @ category, 9 / 10)
      | None \<Rightarrow>
          (case first_category SKIP_KEYWORDS query_lower of
             Some category \<Rightarrow> (''SKIP:'' @ category, 9 / 10)
           | None \<Rightarrow> (''NONE'', 5 / 10)))"

definition check_budget :: "OpusGatekeeper \<Rightarrow> bool \<times> rat" where
  "check_budget g =
     (let remaining = gk_monthly_budget g - gk_current_monthly_spend g;
          can_invoke = (remaining \<ge> MIN_OPUS_BUDGET)
      in (can_invoke, remaining))"

definition check_tier_eligibility :: "string \<Rightarrow> bool" where
  "check_tier_eligibility tier = (tier = ''tier_3'')"

text \<open>\<open>should_invoke_opus\<close>. The parameter \<open>fmt2\<close> stands for the float format
  \<open>:.2f\<close> of the reason strings; \<open>tier = None\<close> is classified by the tier classifier.\<close>

definition should_invoke_opus ::
  "(rat \<Rightarrow> string) \<Rightarrow> OpusGatekeeper \<Rightarrow> string \<Rightarrow> string option \<Rightarrow> int \<Rightarrow> 'm \<Rightarrow> GatekeeperResult"
where
  "should_invoke_opus fmt2 g query tier_arg token_count metadata =
     (let tier = (case tier_arg of None \<Rightarrow> classify_query_tier query token_count metadata
                                 | Some t \<Rightarrow> t);
          (category, confidence) = classify_category query;
          (can_invoke_budget, remaining) = check_budget g
      in
      if startswith category ''MANDATORY:'' then
        (if can_invoke_budget then
           \<lparr> gr_decision = INVOKE,
             gr_reason = ''MANDATORY category ('' @ split_colon_1 category @ '') per Council ruling'',
             gr_confidence = confidence, gr_category = category, gr_tier = tier,
             gr_budget_remaining = remaining, gr_budget_threshold = gk_budget_gate g \<rparr>
         else
           \<lparr> gr_decision = BUDGET_BLOCK,
             gr_reason = ''MANDATORY category but budget insufficient ($'' @ fmt2 remaining
                          @ '' < $0.5)'',
             gr_confidence = 1, gr_category = category, gr_tier = tier,
             gr_budget_remaining = remaining, gr_budget_threshold = gk_budget_gate g \<rparr>)
      else if startswith category ''SKIP:'' then
        \<lparr> gr_decision = SKIP,
          gr_reason = ''SKIP category ('' @ split_colon_1 category @ '') per Council ruling'',
          gr_confidence = confidence, gr_category = category, gr_tier = tier,
          gr_budget_remaining = remaining, gr_budget_threshold = gk_budget_gate g \<rparr>
      else if gk_current_monthly_spend g > gk_budget_gate g then
        \<lparr> gr_decision = BUDGET_BLOCK,
          gr_reason = ''Budget gate exceeded ($'' @ fmt2 (gk_current_monthly_spend g) @ '' > $''
                       @ fmt2 (gk_budget_gate g) @ '')'',
          gr_confidence = 8 / 10, gr_category = category, gr_tier = tier,
          gr_budget_remaining = remaining, gr_budget_threshold = gk_budget_gate g \<rparr>
      else if check_tier_eligibility tier then
        (if can_invoke_budget then
           \<lparr> gr_decision = INVOKE,
             gr_reason = ''Tier '' @ tier @ '' invokes Opus by default'',
             gr_confidence = 7 / 10, gr_category = category, gr_tier = tier,
             gr_budget_remaining = remaining, gr_budget_threshold = gk_budget_gate g \<rparr>
         else
           \<lparr> gr_decision = BUDGET_BLOCK,
             gr_reason = ''Tier '' @ tier @ '' eligible but budget insufficient'',
             gr_confidence = 7 / 10, gr_category = category, gr_tier = tier,
             gr_budget_remaining = remaining, gr_budget_threshold = gk_budget_gate g \<rparr>)
      else
        \<lparr> gr_decision = SKIP,
          gr_reason = ''No mandatory category detected, Tier '' @ tier @ '' does not require Opus'',
          gr_confidence = 6 / 10, gr_category = category, gr_tier = tier,
          gr_budget_remaining = remaining, gr_budget_threshold = gk_budget_gate g \<rparr>)"


section \<open>pricing.py: the pricing table\<close>

record ModelPricing =
  input_price_per_1m :: rat
  output_price_per_1m :: rat
  provider :: string

definition MODEL_PRICING :: "(string \<times> ModelPricing) list" where
  "MODEL_PRICING =
     [(''claude-opus-4-5-20251101'',
         \<lparr>input_price_per_1m = 15, output_price_per_1m = 75, provider = ''anthropic''\<rparr>),
      (''claude-sonnet-4-20250514'',
         \<lparr>input_price_per_1m = 3, output_price_per_1m = 15, provider = ''anthropic''\<rparr>),
      (''claude-haiku-4-20250514'',
         \<lparr>input_price_per_1m = 80 / 100, output_price_per_1m = 4, provider = ''anthropic''\<rparr>),
      (''gemini-3-pro-preview'',
         \<lparr>input_price_per_1m = 0, output_price_per_1m = 0, provider = ''google''\<rparr>),
      (''gemini-2.0-flash'',
         \<lparr>input_price_per_1m = 75 / 1000, output_price_per_1m = 30 / 100, provider = ''google''\<rparr>),
      (''gemini-2.0-flash-thinking'',
         \<lparr>input_price_per_1m = 75 / 1000, output_price_per_1m = 30 / 100, provider = ''google''\<rparr>),
      (''deepseek-chat'',
         \<lparr>input_price_per_1m = 27 / 100, output_price_per_1m = 110 / 100, provider = ''deepseek''\<rparr>),
      (''deepseek-reasoner'',
         \<lparr>input_price_per_1m = 55 / 100, output_price_per_1m = 219 / 100, provider = ''deepseek''\<rparr>),
      (''kimi-k2-thinking-turbo'',
         \<lparr>input_price_per_1m = 120 / 100, output_price_per_1m = 12, provider = ''moonshot''\<rparr>),
      (''kimi-k2-thinking'',
         \<lparr>input_price_per_1m = 120 / 100, output_price_per_1m = 12, provider = ''moonshot''\<rparr>),
      (''kimi-k2.5'',
         \<lparr>input_price_per_1m = 120 / 100, output_price_per_1m = 12, provider = ''moonshot''\<rparr>),
      (''gemini-2.0-flash-exp'',
         \<lparr>input_price_per_1m = 75 / 1000, output_price_per_1m = 30 / 100, provider = ''google''\<rparr>)]"

definition COUNCIL_MODEL_ALIASES :: "(string \<times> string) list" where
  "COUNCIL_MODEL_ALIASES =
     [(''gemini-architect'', ''gemini-2.0-flash-exp''),
      (''gemini-flash'', ''gemini-2.0-flash''),
      (''gemini-flash-latest'', ''gemini-2.0-flash-exp''),
      (''gemini-flash-fallback'', ''gemini-2.0-flash''),
      (''gemini-3-pro-semifinal'', ''gemini-2.0-flash''),
      (''gemini-pro'', ''gemini-2.0-flash-exp''),
      (''gemini-pro-latest'', ''gemini-3-pro-preview''),
      (''deepseek-v3'', ''deepseek-chat''),
      (''deepseek-security'', ''deepseek-reasoner''),
      (''kimi-researcher'', ''kimi-k2-thinking-turbo''),
      (''kimi-deep'', ''kimi-k2-thinking''),
      (''kimi-synthesis'', ''kimi-k2.5''),
      (''claude-sonnet'', ''claude-sonnet-4-20250514''),
      (''opus-synthesis'', ''claude-opus-4-5-20251101''),
      (''perplexity-online'', ''perplexity-online''),
      (''perplexity-researcher'', ''perplexity-researcher'')]"

text \<open>\<open>PERPLEXITY_PRICING\<close>: the \<open>cost_per_search\<close> and the \<open>provider\<close> of each entry.\<close>

definition PERPLEXITY_PRICING :: "(string \<times> rat \<times> string) list" where
  "PERPLEXITY_PRICING =
     [(''perplexity-online'', 2 / 1000, ''perplexity''),
      (''perplexity-researcher'', 1 / 1000, ''perplexity'')]"

definition get_pricing :: "string \<Rightarrow> ModelPricing" where
  "get_pricing model_alias =
     (case map_of PERPLEXITY_PRICING model_alias of
        Some (cost_per_search, p) \<Rightarrow>
          \<lparr>input_price_per_1m = cost_per_search, output_price_per_1m = 0,
           provider = ''perplexity''\<rparr>
      | None \<Rightarrow>
          (let underlying_model =
                 (case map_of COUNCIL_MODEL_ALIASES model_alias of
                    Some u \<Rightarrow> u | None \<Rightarrow> model_alias)
           in case map_of MODEL_PRICING underlying_model of
                None \<Rightarrow> \<lparr>input_price_per_1m = 1, output_price_per_1m = 5,
                          provider = ''unknown''\<rparr>
              | Some pricing \<Rightarrow> pricing))"

text \<open>\<open>calculate_cost\<close>. The built-in \<open>round(x, ndigits)\<close> on floats is the
  parameter \<open>round_nd\<close>; token counts arrive as numbers (the estimator passes products
  such as \<open>base * 0.8\<close>).\<close>

definition calculate_cost :: "(rat \<Rightarrow> nat \<Rightarrow> rat) \<Rightarrow> string \<Rightarrow> rat \<Rightarrow> rat \<Rightarrow> rat" where
  "calculate_cost round_nd model prompt_tokens completion_tokens =
     (let pricing = get_pricing model;
          input_cost = (prompt_tokens / 1000000) * input_price_per_1m pricing;
          output_cost = (completion_tokens / 1000000) * output_price_per_1m pricing
      in round_nd (input_cost + output_cost) 6)"


section \<open>diamond_cost_predictor.py: pre-flight estimate and budget reservation\<close>

record CostEstimate =
  ce_tier :: string
  ce_models :: "string list"
  ce_estimated_min_cost :: rat
  ce_estimated_max_cost :: rat
  ce_estimated_tokens :: int
  ce_can_proceed :: bool
  ce_reason :: string

record TokenEstimate =
  te_input_tokens :: int
  te_output_per_model :: "(string \<times> rat) list"

record DiamondCostPredictor =
  cp_monthly_budget :: rat
  cp_current_monthly_spend :: rat
  cp_tier_budget_allocation :: "(string \<times> rat) list"

definition MAX_COST_PER_QUERY :: rat where
  "MAX_COST_PER_QUERY = 250 / 100"

definition AVG_INPUT_TOKENS_PER_CHAR :: rat where
  "AVG_INPUT_TOKENS_PER_CHAR = 25 / 100"

definition AVG_OUTPUT_TOKENS_PER_INPUT :: rat where
  "AVG_OUTPUT_TOKENS_PER_INPUT = 5 / 10"

definition DiamondCostPredictor_init :: "rat \<Rightarrow> rat \<Rightarrow> DiamondCostPredictor" where
  "DiamondCostPredictor_init monthly_budget current_monthly_spend =
     \<lparr> cp_monthly_budget = monthly_budget,
       cp_current_monthly_spend = current_monthly_spend,
       cp_tier_budget_allocation =
         [(''tier_1'', 20 / 100), (''tier_2'', 40 / 100), (''tier_3'', 40 / 100)] \<rparr>"

text \<open>\<open>int(x)\<close> on a float truncates toward zero.\<close>

definition py_int :: "rat \<Rightarrow> int" where
  "py_int x = (if x \<ge> 0 then \<lfloor>x\<rfloor> else \<lceil>x\<rceil>)"

definition estimate_tokens :: "string \<Rightarrow> string \<Rightarrow> TokenEstimate" where
  "estimate_tokens query context =
     (let input_text = query @ ''\<newline>'' @ context;
          input_tokens = py_int (of_nat (length input_text) * AVG_INPUT_TOKENS_PER_CHAR);
          estimated_base_output = py_int (of_int input_tokens * AVG_OUTPUT_TOKENS_PER_INPUT);
          base = (of_int estimated_base_output :: rat);
          output_per_model =
            [(''claude-sonnet'', min base 2000),
             (''deepseek-v3'', min (base * (8 / 10)) 2000),
             (''gemini-flash'', min (base * (5 / 10)) 1000),
             (''kimi-researcher'', min (base * (15 / 10)) 2000),
             (''gemini-pro'', min (base * 2) 5000),
             (''opus-synthesis'', min (base * (15 / 10)) 4000),
             (''perplexity-online'', 500),
             (''perplexity-researcher'', 300)]
      in \<lparr> te_input_tokens = input_tokens, te_output_per_model = output_per_model \<rparr>)"

text \<open>One turn of the loop of \<open>estimate_tier_cost\<close>. A failed lookup in
  \<open>PERPLEXITY_PRICING\<close> is the \<open>KeyError\<close> that the \<open>except\<close> clause turns into the
  conservative range.\<close>

definition tier_cost_step ::
  "(rat \<Rightarrow> nat \<Rightarrow> rat) \<Rightarrow> int \<Rightarrow> (string \<times> rat) list \<Rightarrow> rat \<times> rat \<Rightarrow> string \<Rightarrow> rat \<times> rat"
where
  "tier_cost_step round_nd input_tokens output_per_model acc model =
     (let (min_cost, max_cost) = acc;
          output_tokens = (case map_of output_per_model model of
                             Some n \<Rightarrow> n | None \<Rightarrow> 1000)
      in if model \<in> set [''perplexity-online'', ''perplexity-researcher''] then
           (case map_of PERPLEXITY_PRICING model of
              Some (cost, p) \<Rightarrow> (min_cost + cost, max_cost + cost)
            | None \<Rightarrow> (min_cost + 1 / 100, max_cost + 5 / 100))
         else
           (let cost = calculate_cost round_nd model (of_int input_tokens) output_tokens
            in (min_cost + cost, max_cost + cost)))"

definition estimate_tier_cost ::
  "(rat \<Rightarrow> nat \<Rightarrow> rat) \<Rightarrow> string \<Rightarrow> string list \<Rightarrow> int \<Rightarrow> (string \<times> rat) list \<Rightarrow> rat \<times> rat"
where
  "estimate_tier_cost round_nd tier models input_tokens output_per_model =
     (let (min_cost, max_cost) =
            foldl (tier_cost_step round_nd input_tokens output_per_model) (0, 0) models
      in (round_nd min_cost 4, round_nd max_cost 4))"

text \<open>\<open>self.tier_budget_allocation.get(tier, 0.20)\<close>\<close>

definition tier_allocation :: "DiamondCostPredictor \<Rightarrow> string \<Rightarrow> rat" where
  "tier_allocation p tier =
     (case map_of (cp_tier_budget_allocation p) tier of Some a \<Rightarrow> a | None \<Rightarrow> 20 / 100)"

text \<open>\<open>check_budget_reservation\<close>; \<open>fmt2\<close> is the float format \<open>:.2f\<close>.\<close>

definition check_budget_reservation ::
  "(rat \<Rightarrow> string) \<Rightarrow> DiamondCostPredictor \<Rightarrow> string \<Rightarrow> rat \<Rightarrow> bool \<times> string"
where
  "check_budget_reservation fmt2 p tier estimated_cost =
     (if estimated_cost > MAX_COST_PER_QUERY then
        (False, ''Cost $'' @ fmt2 estimated_cost @ '' exceeds per-query ceiling of $2.5'')
      else
        (let remaining_budget = cp_monthly_budget p - cp_current_monthly_spend p in
         if estimated_cost > remaining_budget then
           (False, ''Insufficient budget: $'' @ fmt2 estimated_cost @ '' > $''
                     @ fmt2 remaining_budget @ '' remaining'')
         else
           (let tier_budget = cp_monthly_budget p * tier_allocation p tier;
                tier_spend = cp_current_monthly_spend p * tier_allocation p tier
            in if estimated_cost > tier_budget - tier_spend then
                 (False, ''Tier budget exceeded: $'' @ fmt2 estimated_cost @ '' > $''
                           @ fmt2 (tier_budget - tier_spend) @ '' tier budget remaining'')
               else (True, ''Budget available''))))"

definition predict_and_reserve ::
  "(rat \<Rightarrow> nat \<Rightarrow> rat) \<Rightarrow> (rat \<Rightarrow> string) \<Rightarrow> DiamondCostPredictor \<Rightarrow>
   string \<Rightarrow> string \<Rightarrow> string \<Rightarrow> string list option \<Rightarrow> CostEstimate"
where
  "predict_and_reserve round_nd fmt2 p query context tier models_arg =
     (let models =
            (case models_arg of
               Some ms \<Rightarrow> ms
             | None \<Rightarrow>
                 (case get_models_for_tier tier of
                    Inr ms \<Rightarrow> ms
                  | Inl e \<Rightarrow> [''claude-sonnet'']));
          token_estimate = estimate_tokens query context;
          (min_cost, max_cost) =
            estimate_tier_cost round_nd tier models (te_input_tokens token_estimate)
              (te_output_per_model token_estimate);
          (can_proceed, reason) = check_budget_reservation fmt2 p tier max_cost
      in \<lparr> ce_tier = tier, ce_models = models,
           ce_estimated_min_cost = min_cost, ce_estimated_max_cost = max_cost,
           ce_estimated_tokens = te_input_tokens token_estimate,
           ce_can_proceed = can_proceed, ce_reason = reason \<rparr>)"


section \<open>gateway.py: the model client\<close>

text \<open>Decimal rendering of a natural number, as \<open>str(n)\<close> and \<open>{n}\<close> in an f-string.\<close>

fun str_nat :: "nat \<Rightarrow> string" where
  "str_nat n =
     (if n < 10 then [char_of (48 + n)]
      else str_nat (n div 10) @ [char_of (48 + n mod 10)])"

declare str_nat.simps [simp del]

text \<open>\<open>timeout or default\<close> on an optional integer: \<open>None\<close> and 0 give the
  default.\<close>

definition timeout_or :: "nat option \<Rightarrow> nat \<Rightarrow> nat" where
  "timeout_or timeout_arg fallback_value =
     (case timeout_arg of
        None \<Rightarrow> fallback_value
      | Some t \<Rightarrow> if t = 0 then fallback_value else t)"

record CouncilGateway =
  gw_gateway_url :: string
  gw_default_timeout :: nat
  gw_max_retries :: nat

definition CouncilGateway_init :: CouncilGateway where
  "CouncilGateway_init =
     \<lparr> gw_gateway_url = ''http://localhost:4000/v1/chat/completions'',
       gw_default_timeout = 120,
       gw_max_retries = 2 \<rparr>"

record GatewayResponse =
  resp_success :: bool
  resp_content :: "string option"
  resp_model :: string
  resp_tokens :: int
  resp_error :: "string option"

text \<open>
  What one \<open>requests.post\<close> with the statements that follow it in the \<open>try\<close> block can do:
  deliver a payload with the content field (and the total token count, 0 when the usage
  is missing), deliver a payload without it (the text of the \<open>KeyError\<close>,
  \<open>IndexError\<close> or \<open>TypeError\<close>), raise \<open>requests.exceptions.Timeout\<close>, raise
  another \<open>RequestException\<close>, or raise any other exception (both with \<open>str(e)\<close>).
\<close>

datatype http_outcome =
  HttpOk string int
| HttpNoContent string
| HttpTimeout
| HttpRequestException string
| HttpException string

definition failed_response :: "string \<Rightarrow> string \<Rightarrow> GatewayResponse" where
  "failed_response model err =
     \<lparr> resp_success = False, resp_content = None, resp_model = model, resp_tokens = 0,
       resp_error = Some err \<rparr>"

text \<open>
  The retry loop of \<open>call_model\<close> together with its recursive call on the fallback
  alias. The backend is an oracle: \<open>backend n model\<close> is the outcome of the request
  number \<open>n\<close> of this call (counted from 0 over all hops), sent for \<open>model\<close>; the
  prompts, the temperature and \<open>max_tokens\<close> are the same in every request and are left
  out. \<open>attempt\<close> is the loop variable of \<open>for attempt in range(self.max_retries + 1)\<close>;
  a hop to the fallback starts a new loop at attempt 0 with the same timeout. \<open>sent\<close>
  logs the requests issued so far, each with its model alias and timeout. The result is
  \<open>None\<close> when the call never returns.
\<close>

partial_function (option) call_model_rec ::
  "CouncilGateway \<Rightarrow> (string \<times> string) list \<Rightarrow> (nat \<Rightarrow> string \<Rightarrow> http_outcome) \<Rightarrow> nat \<Rightarrow>
   string \<Rightarrow> nat \<Rightarrow> (string \<times> nat) list \<Rightarrow> (GatewayResponse \<times> (string \<times> nat) list) option"
where
  "call_model_rec gw fallbacks backend timeout model attempt sent =
     (if attempt \<ge> gw_max_retries gw + 1 then
        Some (failed_response model ''Max retries exceeded'', sent)
      else
        (case backend (length sent) model of
           HttpOk content tokens \<Rightarrow>
             Some (\<lparr> resp_success = True, resp_content = Some content, resp_model = model,
                     resp_tokens = tokens, resp_error = None \<rparr>,
                   sent @ [(model, timeout)])
         | HttpNoContent e \<Rightarrow>
             Some (failed_response model (''Invalid response format: '' @ e),
                   sent @ [(model, timeout)])
         | HttpTimeout \<Rightarrow>
             (if attempt < gw_max_retries gw then
                call_model_rec gw fallbacks backend timeout model (attempt + 1)
                  (sent @ [(model, timeout)])
              else
                Some (failed_response model (''Request timeout after '' @ str_nat timeout @ ''s''),
                      sent @ [(model, timeout)]))
         | HttpRequestException e \<Rightarrow>
             (case map_of fallbacks model of
                Some fallback \<Rightarrow>
                  (if fallback \<noteq> [] \<and> attempt = 0 then
                     call_model_rec gw fallbacks backend timeout fallback 0
                       (sent @ [(model, timeout)])
                   else
                     Some (failed_response model (''Request failed: '' @ take 100 e),
                           sent @ [(model, timeout)]))
              | None \<Rightarrow>
                  Some (failed_response model (''Request failed: '' @ take 100 e),
                        sent @ [(model, timeout)]))
         | HttpException e \<Rightarrow>
             Some (failed_response model (''Unexpected error: '' @ take 100 e),
                   sent @ [(model, timeout)])))"

text \<open>\<open>call_model\<close>: \<open>timeout = timeout or self.default_timeout\<close>, then the loop.\<close>

definition call_model ::
  "CouncilGateway \<Rightarrow> (string \<times> string) list \<Rightarrow> (nat \<Rightarrow> string \<Rightarrow> http_outcome) \<Rightarrow>
   string \<Rightarrow> nat option \<Rightarrow> (GatewayResponse \<times> (string \<times> nat) list) option"
where
  "call_model gw fallbacks backend model timeout_arg =
     (let timeout = timeout_or timeout_arg (gw_default_timeout gw)
      in call_model_rec gw fallbacks backend timeout model 0 [])"

text \<open>The fallback configuration as a graph: an edge from an alias to its fallback,
  when that is a non-empty string (\<open>if fallback and ...\<close>).\<close>

definition fallback_edges :: "(string \<times> string) list \<Rightarrow> (string \<times> string) set" where
  "fallback_edges fallbacks = {(m, f). map_of fallbacks m = Some f \<and> f \<noteq> []}"

text \<open>The fallback chain that starts at an alias: the alias, its fallback, the fallback
  of that, up to an alias with no fallback.\<close>

inductive fallback_chain :: "(string \<times> string) list \<Rightarrow> string \<Rightarrow> string list \<Rightarrow> bool"
  for fallbacks :: "(string \<times> string) list"
where
  chain_end:
    "map_of fallbacks m = None \<or> map_of fallbacks m = Some [] \<Longrightarrow> fallback_chain fallbacks m [m]"
| chain_hop:
    "map_of fallbacks m = Some f \<Longrightarrow> f \<noteq> [] \<Longrightarrow> fallback_chain fallbacks f ms
       \<Longrightarrow> fallback_chain fallbacks m (m # ms)"

code_pred fallback_chain .

text \<open>A backend that answers every request with a non-timeout request failure.\<close>

definition persistent_request_failure :: "(nat \<Rightarrow> string \<Rightarrow> http_outcome) \<Rightarrow> bool" where
  "persistent_request_failure backend = (\<forall>n m. \<exists>e. backend n m = HttpRequestException e)"


section \<open>parallel_executor.py: the stage executor\<close>

record ModelResponse =
  mr_model :: string
  mr_content :: string
  mr_success :: bool
  mr_latency_seconds :: rat
  mr_cost :: rat
  mr_tokens_used :: int
  mr_error :: "string option"
  mr_fallback_used :: "string option"

record ParallelResult =
  pr_responses :: "ModelResponse list"
  pr_total_latency :: rat
  pr_total_cost :: rat
  pr_total_tokens :: int
  pr_success_count :: int
  pr_failure_count :: int

record ParallelExecutor =
  pe_gateway_url :: string
  pe_max_workers :: int
  pe_default_timeout :: nat
  pe_perplexity :: bool

text \<open>\<open>ParallelExecutor.__init__\<close>; the last argument says whether the Perplexity
  wrapper could be imported and built.\<close>

definition ParallelExecutor_init :: "string option \<Rightarrow> int \<Rightarrow> nat \<Rightarrow> bool \<Rightarrow> ParallelExecutor" where
  "ParallelExecutor_init gateway_url max_workers default_timeout perplexity =
     \<lparr> pe_gateway_url =
         (case gateway_url of
            None \<Rightarrow> ''http://localhost:4000/v1/chat/completions''
          | Some u \<Rightarrow> if u = [] then ''http://localhost:4000/v1/chat/completions'' else u),
       pe_max_workers = max_workers,
       pe_default_timeout = default_timeout,
       pe_perplexity = perplexity \<rparr>"

record SearchResult =
  sr_title :: string
  sr_url :: string
  sr_snippet :: string
  sr_score :: rat
  sr_source :: string

record PerplexityResponse =
  px_answer :: string
  px_citations :: "SearchResult list"
  px_model :: string
  px_tokens_used :: int
  px_cost :: rat
  px_latency_seconds :: rat

text \<open>
  The outcomes of the gateway request of \<open>_execute_model\<close> (content with the prompt,
  completion and total token counts and the elapsed time; a timeout; any other
  exception with \<open>str(e)\<close> and the elapsed time) and of the Perplexity search.
\<close>

datatype exec_outcome =
  ExecOk string int int int rat
| ExecTimeout
| ExecException string rat

datatype search_outcome =
  SearchOk PerplexityResponse
| SearchException string rat

definition estimate_cost :: "string \<Rightarrow> int \<Rightarrow> int \<Rightarrow> rat" where
  "estimate_cost model prompt_tokens completion_tokens =
     (case map_of
        [(''claude-sonnet'', (3, 15)),
         (''deepseek-v3'', (27 / 100, 110 / 100)),
         (''gemini-flash'', (75 / 1000, 30 / 100)),
         (''kimi-researcher'', (120 / 100, 12)),
         (''gemini-pro'', (75 / 1000, 30 / 100)),
         (''opus-synthesis'', (15, 75))] model of
        Some (input_price, output_price) \<Rightarrow>
          (of_int prompt_tokens / 1000000) * input_price
          + (of_int completion_tokens / 1000000) * output_price
      | None \<Rightarrow> 1 / 100)"

definition perplexity_content :: "PerplexityResponse \<Rightarrow> string" where
  "perplexity_content result =
     ''## Web Research Results\<newline>\<newline>''
     @ (if px_answer result \<noteq> [] then px_answer result @ ''\<newline>\<newline>'' else [])
     @ ''### Sources ('' @ str_nat (length (px_citations result)) @ '')\<newline>''
     @ concat (map (\<lambda>(i, citation).
                      str_nat i @ ''. ['' @ sr_title citation @ '']('' @ sr_url citation
                      @ '')\<newline>'')
                 (zip [1 ..< Suc (length (px_citations result))] (px_citations result)))"

definition failed_model_response :: "string \<Rightarrow> rat \<Rightarrow> string \<Rightarrow> ModelResponse" where
  "failed_model_response model latency err =
     \<lparr> mr_model = model, mr_content = [], mr_success = False, mr_latency_seconds = latency,
       mr_cost = 0, mr_tokens_used = 0, mr_error = Some err, mr_fallback_used = None \<rparr>"

text \<open>
  The body of \<open>_execute_model\<close>, with the resolved timeout. \<open>llm n model\<close> is the outcome of the
  gateway request number \<open>n\<close> of this call, sent for \<open>model\<close>; \<open>search\<close> answers a
  Perplexity search by its model name. \<open>sent\<close> logs the aliases requested so far. The
  result is \<open>None\<close> when the recursion on fallbacks never returns.
\<close>

partial_function (option) execute_model_rec ::
  "ParallelExecutor \<Rightarrow> (string \<times> string) list \<Rightarrow> (nat \<Rightarrow> string \<Rightarrow> exec_outcome) \<Rightarrow>
   (string \<Rightarrow> search_outcome) \<Rightarrow> string \<Rightarrow> nat \<Rightarrow> string list \<Rightarrow>
   (ModelResponse \<times> string list) option"
where
  "execute_model_rec pe fallbacks llm search model timeout sent =
     (if startswith model ''perplexity-'' \<and> pe_perplexity pe then
        (case search (if model = ''perplexity-researcher'' then ''sonar-small-online''
                      else ''sonar-medium-online'') of
           SearchOk result \<Rightarrow>
             Some (\<lparr> mr_model = model, mr_content = perplexity_content result,
                     mr_success = True, mr_latency_seconds = px_latency_seconds result,
                     mr_cost = px_cost result, mr_tokens_used = px_tokens_used result,
                     mr_error = None, mr_fallback_used = None \<rparr>,
                   sent @ [model])
         | SearchException e elapsed \<Rightarrow>
             Some (failed_model_response model elapsed e, sent @ [model]))
      else
        (case llm (length sent) model of
           ExecOk content prompt_tokens completion_tokens total_tokens elapsed \<Rightarrow>
             Some (\<lparr> mr_model = model, mr_content = content, mr_success = True,
                     mr_latency_seconds = elapsed,
                     mr_cost = estimate_cost model prompt_tokens completion_tokens,
                     mr_tokens_used = total_tokens, mr_error = None,
                     mr_fallback_used = None \<rparr>,
                   sent @ [model])
         | ExecTimeout \<Rightarrow>
             (case map_of fallbacks model of
                Some fallback \<Rightarrow>
                  (if fallback \<noteq> [] \<and> fallback \<noteq> model then
                     execute_model_rec pe fallbacks llm search fallback timeout (sent @ [model])
                   else
                     Some (failed_model_response model (of_nat timeout)
                             (''Timeout after '' @ str_nat timeout @ ''s''),
                           sent @ [model]))
              | None \<Rightarrow>
                  Some (failed_model_response model (of_nat timeout)
                          (''Timeout after '' @ str_nat timeout @ ''s''),
                        sent @ [model]))
         | ExecException e elapsed \<Rightarrow>
             (case map_of fallbacks model of
                Some fallback \<Rightarrow>
                  (if fallback \<noteq> [] \<and> fallback \<noteq> model then
                     Option.bind
                       (execute_model_rec pe fallbacks llm search fallback timeout (sent @ [model]))
                       (\<lambda>(result, sent').
                          Some (result \<lparr> mr_fallback_used := Some model,
                                         mr_model := model @ '' (via '' @ fallback @ '')'' \<rparr>,
                                sent'))
                   else Some (failed_model_response model elapsed e, sent @ [model]))
              | None \<Rightarrow> Some (failed_model_response model elapsed e, sent @ [model]))))"

text \<open>\<open>_execute_model\<close>: \<open>timeout = timeout or self.default_timeout\<close>, then the body.\<close>

definition execute_model ::
  "ParallelExecutor \<Rightarrow> (string \<times> string) list \<Rightarrow> (nat \<Rightarrow> string \<Rightarrow> exec_outcome) \<Rightarrow>
   (string \<Rightarrow> search_outcome) \<Rightarrow> string \<Rightarrow> nat option \<Rightarrow> (ModelResponse \<times> string list) option"
where
  "execute_model pe fallbacks llm search model timeout_arg =
     (let timeout = timeout_or timeout_arg (pe_default_timeout pe)
      in execute_model_rec pe fallbacks llm search model timeout [])"

text \<open>
  \<open>execute_parallel\<close>. Each submitted call settles: it returns a response or raises.
  \<open>settle i model\<close> is how the call submitted at position \<open>i\<close> settles, and \<open>order\<close>
  is the order in which \<open>as_completed\<close> hands the futures back, as positions in
  \<open>models\<close>. \<open>ThreadPoolExecutor(max_workers=n)\<close> raises \<open>ValueError\<close> for \<open>n \<le> 0\<close>.
  \<open>elapsed\<close> is the wall-clock span of the stage.
\<close>

datatype future_outcome = Returned ModelResponse | Raised string

definition collect_response :: "string \<Rightarrow> future_outcome \<Rightarrow> ModelResponse" where
  "collect_response model outcome =
     (case outcome of
        Returned response \<Rightarrow> response
      | Raised e \<Rightarrow> failed_model_response model 0 (''Execution error: '' @ e))"

definition execute_parallel ::
  "ParallelExecutor \<Rightarrow> (nat \<Rightarrow> string \<Rightarrow> future_outcome) \<Rightarrow> nat list \<Rightarrow> rat \<Rightarrow>
   string list \<Rightarrow> py_error + ParallelResult"
where
  "execute_parallel pe settle order elapsed models =
     (if min (pe_max_workers pe) (int (length models)) \<le> 0 then
        Inl (ValueError ''max_workers must be greater than 0'')
      else
        (let responses = map (\<lambda>i. collect_response (models ! i) (settle i (models ! i))) order;
             total_cost = sum_list (map mr_cost responses);
             total_tokens = sum_list (map mr_tokens_used responses);
             success_count = int (length (filter mr_success responses));
             failure_count = int (length responses) - success_count
         in Inr \<lparr> pr_responses = responses, pr_total_latency = elapsed,
                  pr_total_cost = total_cost, pr_total_tokens = total_tokens,
                  pr_success_count = success_count, pr_failure_count = failure_count \<rparr>))"

text \<open>The completion order hands every submitted future back exactly once.\<close>

definition completion_order :: "nat list \<Rightarrow> nat \<Rightarrow> bool" where
  "completion_order order n = (distinct order \<and> set order = {..<n})"

text \<open>A submitted call fails when it raises or returns a response that is not a success.\<close>

definition call_failed :: "future_outcome \<Rightarrow> bool" where
  "call_failed outcome =
     (case outcome of Returned response \<Rightarrow> \<not> mr_success response | Raised e \<Rightarrow> True)"


section \<open>parallel_executor.py: the orchestrator\<close>

definition extract_recommendation :: "string \<Rightarrow> string" where
  "extract_recommendation content =
     (let content_upper = str_upper content in
      if str_in ''APPROVED'' content_upper \<and> \<not> str_in ''CONDITIONAL'' content_upper
        then ''APPROVED''
      else if str_in ''REJECTED'' content_upper then ''REJECTED''
      else if str_in ''CONDITIONAL'' content_upper \<or> str_in ''NEEDS_DEBATE'' content_upper
        then ''CONDITIONAL''
      else ''UNCLEAR'')"

record DiamondDebateResult =
  step1_architect :: ModelResponse
  step2_auditor :: ModelResponse
  step3_contextualist :: ModelResponse
  step4_judge :: ModelResponse
  dd_total_latency :: rat
  dd_total_cost :: rat
  dd_total_tokens :: int

text \<open>The four prompts of \<open>execute_diamond_debate\<close>, as the f-strings build them.\<close>

definition focus_prompt :: "string option \<Rightarrow> string" where
  "focus_prompt focus =
     (case focus of
        None \<Rightarrow> []
      | Some f \<Rightarrow> if f = [] then [] else '' Focus your analysis on: '' @ f @ ''.'')"

definition step1_prompt :: "string \<Rightarrow> string option \<Rightarrow> string" where
  "step1_prompt topic focus =
     ''You are the Architect. Propose a high-level technical solution for: '' @
     topic @
     ''\<newline>'' @
     ''\<newline>'' @
     focus_prompt focus @
     ''\<newline>'' @
     ''\<newline>'' @
     ''Structure your response as:\<newline>'' @
     ''1) Problem Statement\<newline>'' @
     ''2) Recommended Approach\<newline>'' @
     ''3) Key Components\<newline>'' @
     ''4) Potential Risks\<newline>'' @
     ''\<newline>'' @
     ''Be concise but thorough.''"

definition step2_prompt :: "string \<Rightarrow> string" where
  "step2_prompt step1_content =
     ''You are the Auditor. Critique this proposal for security, logic flaws, and edge cases. Be thorough but constructive.\<newline>'' @
     ''\<newline>'' @
     ''PROPOSAL:\<newline>'' @
     step1_content @
     ''\<newline>'' @
     ''\<newline>'' @
     ''Focus on:\<newline>'' @
     ''1) Security vulnerabilities\<newline>'' @
     ''2) Logic flaws or edge cases\<newline>'' @
     ''3) Scalability concerns\<newline>'' @
     ''4) Missing considerations\<newline>'' @
     ''\<newline>'' @
     ''Provide specific, actionable critique.''"

definition step3_prompt :: "string \<Rightarrow> string \<Rightarrow> string \<Rightarrow> string" where
  "step3_prompt step1_content step2_content context =
     ''You are the Contextualist with 256k context awareness. Analyze this proposal and critique from the perspective of: existing codebase patterns, integration points, historical decisions, and project context.\<newline>'' @
     ''\<newline>'' @
     ''PROPOSAL:\<newline>'' @
     step1_content @
     ''\<newline>'' @
     ''\<newline>'' @
     ''AUDITOR'S CRITIQUE:\<newline>'' @
     step2_content @
     ''\<newline>'' @
     ''\<newline>'' @
     ''Provide:\<newline>'' @
     ''1) Connection to existing codebase patterns\<newline>'' @
     ''2) Integration points with current system\<newline>'' @
     ''3) Edge cases from project history\<newline>'' @
     ''4) Recommendations for alignment with current architecture\<newline>'' @
     ''\<newline>'' @
     ''Be specific about what already exists in the codebase that should be leveraged or followed.\<newline>'' @
     ''\<newline>'' @
     context"

definition step4_prompt :: "string \<Rightarrow> string \<Rightarrow> string \<Rightarrow> string" where
  "step4_prompt step1_content step2_content step3_content =
     ''You are the Supreme Court Judge. Synthesize a final decision based on this proposal, critique, and context-aware analysis.\<newline>'' @
     ''\<newline>'' @
     ''PROPOSAL:\<newline>'' @
     step1_content @
     ''\<newline>'' @
     ''\<newline>'' @
     ''AUDITOR'S CRITIQUE:\<newline>'' @
     step2_content @
     ''\<newline>'' @
     ''\<newline>'' @
     ''CONTEXTUALIST'S ANALYSIS:\<newline>'' @
     step3_content @
     ''\<newline>'' @
     ''\<newline>'' @
     ''Weigh all perspectives and issue a final decree with:\<newline>'' @
     ''1) Analysis of key points\<newline>'' @
     ''2) Accepted recommendations\<newline>'' @
     ''3) Final decision or implementation plan\<newline>'' @
     ''\<newline>'' @
     ''Be decisive and actionable.''"

text \<open>
  \<open>execute_diamond_debate\<close>. \<open>exec model prompt max_tokens timeout\<close> is the response
  that \<open>self.executor._execute_model\<close> returns for that call. The second component of
  the result lists the calls made, in order, each with the prompt it was given.
\<close>

definition skipped_response :: "string \<Rightarrow> ModelResponse" where
  "skipped_response model =
     \<lparr> mr_model = model, mr_content = [], mr_success = False, mr_latency_seconds = 0,
       mr_cost = 0, mr_tokens_used = 0, mr_error = Some ''Architect failed, skipping'',
       mr_fallback_used = None \<rparr>"

definition execute_diamond_debate ::
  "(string \<Rightarrow> string \<Rightarrow> nat \<Rightarrow> nat \<Rightarrow> ModelResponse) \<Rightarrow> string \<Rightarrow> string option \<Rightarrow> string \<Rightarrow>
   DiamondDebateResult \<times> (string \<times> string) list"
where
  "execute_diamond_debate exec topic focus context =
     (let p1 = step1_prompt topic focus;
          step1 = exec ''gemini-architect'' p1 3000 60
      in if \<not> mr_success step1 then
           (\<lparr> step1_architect = step1,
               step2_auditor = skipped_response ''deepseek-v3'',
               step3_contextualist = skipped_response ''kimi-researcher'',
               step4_judge = skipped_response ''opus-synthesis'',
               dd_total_latency = mr_latency_seconds step1,
               dd_total_cost = mr_cost step1,
               dd_total_tokens = mr_tokens_used step1 \<rparr>,
            [(''gemini-architect'', p1)])
         else
           (let p2 = step2_prompt (mr_content step1);
                step2 = exec ''deepseek-v3'' p2 4000 90;
                p3 = step3_prompt (mr_content step1) (mr_content step2) context;
                step3 = exec ''kimi-researcher'' p3 5000 180;
                p4 = step4_prompt (mr_content step1) (mr_content step2) (mr_content step3);
                step4 = exec ''opus-synthesis'' p4 64000 180
            in (\<lparr> step1_architect = step1, step2_auditor = step2,
                   step3_contextualist = step3, step4_judge = step4,
                   dd_total_latency = sum_list (map mr_latency_seconds [step1, step2, step3, step4]),
                   dd_total_cost = sum_list (map mr_cost [step1, step2, step3, step4]),
                   dd_total_tokens = sum_list (map mr_tokens_used [step1, step2, step3, step4]) \<rparr>,
                [(''gemini-architect'', p1), (''deepseek-v3'', p2),
                 (''kimi-researcher'', p3), (''opus-synthesis'', p4)])))"


section \<open>Notions used to state the properties\<close>

text \<open>A query has a keyword of a keyword table when some keyword of some category
  occurs in it, compared case-insensitively.\<close>

definition has_keyword :: "(string \<times> string list) list \<Rightarrow> string \<Rightarrow> bool" where
  "has_keyword table query =
     list_ex (\<lambda>(category, keywords).
        list_ex (\<lambda>keyword. str_in (str_lower keyword) (str_lower query)) keywords) table"

text \<open>The precedence of the gatekeeper's rules, first applicable rule first: the
  arguments say whether the query is of a mandatory category, of a skip category,
  whether the remaining budget reaches the invocation floor, whether the monthly spend
  is above the budget gate, and whether the tier is \<open>tier_3\<close>.\<close>

definition decision_precedence :: "bool \<Rightarrow> bool \<Rightarrow> bool \<Rightarrow> bool \<Rightarrow> bool \<Rightarrow> OpusDecision" where
  "decision_precedence mandatory skip floor_ok over_gate tier3 =
     (if mandatory \<and> floor_ok then INVOKE
      else if mandatory \<and> \<not> floor_ok then BUDGET_BLOCK
      else if skip then SKIP
      else if over_gate then BUDGET_BLOCK
      else if tier3 \<and> floor_ok then INVOKE
      else if tier3 \<and> \<not> floor_ok then BUDGET_BLOCK
      else SKIP)"

text \<open>An inline tag occurs in a query, compared case-insensitively.\<close>

definition has_tag :: "string \<Rightarrow> string \<Rightarrow> bool" where
  "has_tag tag query = str_in tag (str_lower query)"

text \<open>A verdict token occurs in a text, compared case-insensitively.\<close>

definition mentions :: "string \<Rightarrow> string \<Rightarrow> bool" where
  "mentions token content = str_in token (str_upper content)"

text \<open>In a log of requests, numbered from \<open>n\<close>, every request that timed out is
  followed, if by anything, by a request to the same alias with the same timeout.\<close>

fun timeouts_stay :: "(nat \<Rightarrow> string \<Rightarrow> http_outcome) \<Rightarrow> nat \<Rightarrow> (string \<times> nat) list \<Rightarrow> bool" where
  "timeouts_stay backend n [] = True"
| "timeouts_stay backend n [x] = True"
| "timeouts_stay backend n (x # y # rest) =
     ((backend n (fst x) = HttpTimeout \<longrightarrow> y = x) \<and> timeouts_stay backend (Suc n) (y # rest))"

text \<open>The alias reached from an alias after a number of fallback hops.\<close>

fun nth_fallback :: "(string \<times> string) list \<Rightarrow> string \<Rightarrow> nat \<Rightarrow> string" where
  "nth_fallback fallbacks m 0 = m"
| "nth_fallback fallbacks m (Suc n) =
     (case map_of fallbacks m of
        Some f \<Rightarrow> nth_fallback fallbacks f n
      | None \<Rightarrow> m)"

text \<open>
  The interpreter bounds the depth of recursion. In a call of \<open>call_model\<close> made at
  the limit, \<open>requests.post\<close> cannot run: \<open>RecursionError\<close> is raised in the \<open>try\<close>
  block, an exception that is no \<open>RequestException\<close>, with the message \<open>msg\<close>. On a
  run in which every request so far ended in a hop to the fallback, request number
  \<open>n\<close> is issued at depth \<open>n\<close>; \<open>recursion_limited limit msg backend\<close> is what the
  calls of such a run meet when the limit is reached at request number \<open>limit\<close>.
\<close>

definition recursion_limited ::
  "nat \<Rightarrow> string \<Rightarrow> (nat \<Rightarrow> string \<Rightarrow> http_outcome) \<Rightarrow> nat \<Rightarrow> string \<Rightarrow> http_outcome"
where
  "recursion_limited limit msg backend n m =
     (if n < limit then backend n m else HttpException msg)"


section \<open>The string primitives meet their meaning\<close>

lemma startswith_iff: "startswith s p = (\<exists>r. s = p @ r)"
  by (induction s p rule: startswith.induct) auto

lemma str_in_iff: "str_in needle hay = (\<exists>pre suf. hay = pre @ needle @ suf)"
proof (induction hay)
  case Nil
  then show ?case by auto
next
  case (Cons c cs)
  show ?case
  proof
    assume "str_in needle (c # cs)"
    then consider "startswith (c # cs) needle" | "str_in needle cs" by auto
    then show "\<exists>pre suf. c # cs = pre @ needle @ suf"
    proof cases
      case 1
      then obtain r where "c # cs = needle @ r" by (auto simp: startswith_iff)
      then have "c # cs = [] @ needle @ r" by simp
      then show ?thesis by blast
    next
      case 2
      then obtain pre suf where "cs = pre @ needle @ suf" using Cons.IH by auto
      then have "c # cs = (c # pre) @ needle @ suf" by simp
      then show ?thesis by blast
    qed
  next
    assume "\<exists>pre suf. c # cs = pre @ needle @ suf"
    then obtain pre suf where eq: "c # cs = pre @ needle @ suf" by blast
    show "str_in needle (c # cs)"
    proof (cases pre)
      case Nil
      then have "startswith (c # cs) needle" using eq by (auto simp: startswith_iff)
      then show ?thesis by simp
    next
      case (Cons a pre')
      then have "cs = pre' @ needle @ suf" using eq by simp
      then have "str_in needle cs" using Cons.IH by blast
      then show ?thesis by simp
    qed
  qed
qed


section \<open>Tier classifier\<close>

text \<open>
  Claim C9. \<open>classify_query_tier\<close> is a total function of the query: every string is
  mapped to one of \<open>tier_1\<close>, \<open>tier_2\<close>, \<open>tier_3\<close>, \<open>tier_3_lite\<close>. An explicit inline
  tag decides the tier whatever keywords the query holds (\<open>@council_v2\<close> first, then
  \<open>@council_lite\<close>, then \<open>@research\<close>), and in a query without a tag a
  simple-implementation keyword gives \<open>tier_1\<close> whether or not an architecture or
  comparison keyword occurs as well.
\<close>

theorem classify_query_tier_total_and_precedence:
  "classify_query_tier query token_count metadata
     \<in> {''tier_1'', ''tier_2'', ''tier_3'', ''tier_3_lite''}
   \<and> (has_tag ''@council_v2'' query \<longrightarrow>
        classify_query_tier query token_count metadata = ''tier_3'')
   \<and> (\<not> has_tag ''@council_v2'' query \<and> has_tag ''@council_lite'' query \<longrightarrow>
        classify_query_tier query token_count metadata = ''tier_3_lite'')
   \<and> (\<not> has_tag ''@council_v2'' query \<and> \<not> has_tag ''@council_lite'' query \<and>
       has_tag ''@research'' query \<longrightarrow>
        classify_query_tier query token_count metadata = ''tier_2'')
   \<and> (\<not> has_tag ''@council_v2'' query \<and> \<not> has_tag ''@council_lite'' query \<and>
       \<not> has_tag ''@research'' query \<and>
       any_in SIMPLE_IMPLEMENTATION_KEYWORDS (str_lower query) \<longrightarrow>
        classify_query_tier query token_count metadata = ''tier_1'')"
  by (simp add: classify_query_tier_def has_tag_def Let_def)

text \<open>The four precedence rules at work: a tagged query full of simple-implementation
  keywords, and an untagged query with both a simple-implementation keyword (\<open>fix this\<close>)
  and architecture keywords (\<open>architecture\<close>, \<open>system\<close>).\<close>

theorem classify_query_tier_total_and_precedence_witness:
  "has_tag ''@council_v2'' ''@Council_V2 fix this syntax error''
   \<and> classify_query_tier ''@Council_V2 fix this syntax error'' 0 () = ''tier_3''
   \<and> \<not> has_tag ''@council_v2'' ''@council_lite create a schema''
   \<and> has_tag ''@council_lite'' ''@council_lite create a schema''
   \<and> classify_query_tier ''@council_lite create a schema'' 0 () = ''tier_3_lite''
   \<and> \<not> has_tag ''@council_lite'' ''@research debug the pipeline''
   \<and> has_tag ''@research'' ''@research debug the pipeline''
   \<and> classify_query_tier ''@research debug the pipeline'' 0 () = ''tier_2''
   \<and> \<not> has_tag ''@research'' ''fix this architecture of the system''
   \<and> any_in SIMPLE_IMPLEMENTATION_KEYWORDS (str_lower ''fix this architecture of the system'')
   \<and> any_in ARCHITECTURAL_KEYWORDS (str_lower ''fix this architecture of the system'')
   \<and> classify_query_tier ''fix this architecture of the system'' 0 () = ''tier_1''"
proof -
  have a: "has_tag ''@council_v2'' ''@Council_V2 fix this syntax error''" by code_simp
  have b: "\<not> has_tag ''@council_v2'' ''@council_lite create a schema''"
          "has_tag ''@council_lite'' ''@council_lite create a schema''" by code_simp+
  have c: "\<not> has_tag ''@council_v2'' ''@research debug the pipeline''"
          "\<not> has_tag ''@council_lite'' ''@research debug the pipeline''"
          "has_tag ''@research'' ''@research debug the pipeline''" by code_simp+
  have d: "\<not> has_tag ''@council_v2'' ''fix this architecture of the system''"
          "\<not> has_tag ''@council_lite'' ''fix this architecture of the system''"
          "\<not> has_tag ''@research'' ''fix this architecture of the system''"
          "any_in SIMPLE_IMPLEMENTATION_KEYWORDS (str_lower ''fix this architecture of the system'')"
          "any_in ARCHITECTURAL_KEYWORDS (str_lower ''fix this architecture of the system'')"
    by code_simp+
  have ra: "classify_query_tier ''@Council_V2 fix this syntax error'' 0 () = ''tier_3''"
    using classify_query_tier_total_and_precedence
            [of "''@Council_V2 fix this syntax error''" 0 "()"] a by blast
  have rb: "classify_query_tier ''@council_lite create a schema'' 0 () = ''tier_3_lite''"
    using classify_query_tier_total_and_precedence
            [of "''@council_lite create a schema''" 0 "()"] b by blast
  have rc: "classify_query_tier ''@research debug the pipeline'' 0 () = ''tier_2''"
    using classify_query_tier_total_and_precedence
            [of "''@research debug the pipeline''" 0 "()"] c by blast
  have rd: "classify_query_tier ''fix this architecture of the system'' 0 () = ''tier_1''"
    using classify_query_tier_total_and_precedence
            [of "''fix this architecture of the system''" 0 "()"] d by blast
  show ?thesis using a b c d ra rb rc rd by blast
qed


section \<open>Gatekeeper\<close>

lemma first_category_None:
  "(first_category table (str_lower query) = None) = (\<not> has_keyword table query)"
  by (induction table) (auto simp: has_keyword_def split: if_splits)

lemma classify_category_mandatory:
  "startswith (fst (classify_category query)) ''MANDATORY:'' = has_keyword MANDATORY_KEYWORDS query"
  using first_category_None [of MANDATORY_KEYWORDS query]
  by (auto simp: classify_category_def Let_def split: option.splits)

lemma classify_category_skip:
  "startswith (fst (classify_category query)) ''SKIP:'' =
     (\<not> has_keyword MANDATORY_KEYWORDS query \<and> has_keyword SKIP_KEYWORDS query)"
  using first_category_None [of MANDATORY_KEYWORDS query]
        first_category_None [of SKIP_KEYWORDS query]
  by (auto simp: classify_category_def Let_def split: option.splits)

lemma decision_cases:
  "gr_decision (should_invoke_opus fmt2 g query tier_arg token_count metadata) =
     (let tier = (case tier_arg of None \<Rightarrow> classify_query_tier query token_count metadata
                                 | Some t \<Rightarrow> t);
          category = fst (classify_category query);
          can = fst (check_budget g)
      in if startswith category ''MANDATORY:'' then (if can then INVOKE else BUDGET_BLOCK)
         else if startswith category ''SKIP:'' then SKIP
         else if gk_current_monthly_spend g > gk_budget_gate g then BUDGET_BLOCK
         else if check_tier_eligibility tier then (if can then INVOKE else BUDGET_BLOCK)
         else SKIP)"
  by (simp add: should_invoke_opus_def Let_def split_beta)

text \<open>
  Claim C2. For every query, tier and budget state, the decision of
  \<open>should_invoke_opus\<close> is the one the precedence prescribes, first applicable rule
  winning: a mandatory category with remaining budget of at least $0.50 gives INVOKE, a
  mandatory category without it BUDGET_BLOCK; otherwise a skip category gives SKIP
  whatever the budget; otherwise a monthly spend above the budget gate (the budget
  threshold times the monthly budget, 40% of it with the default threshold) gives
  BUDGET_BLOCK; otherwise tier_3 gives INVOKE when the budget floor is met and
  BUDGET_BLOCK when it is not; otherwise SKIP. A tier that is not supplied is the one
  the tier classifier computes.
\<close>

theorem gatekeeper_decision_precedence:
  "gr_decision (should_invoke_opus fmt2 (OpusGatekeeper_init monthly_budget spend threshold)
                  query tier_arg token_count metadata) =
     decision_precedence
       (has_keyword MANDATORY_KEYWORDS query)
       (has_keyword SKIP_KEYWORDS query)
       (monthly_budget - spend \<ge> 50 / 100)
       (spend > monthly_budget * threshold)
       ((case tier_arg of None \<Rightarrow> classify_query_tier query token_count metadata | Some t \<Rightarrow> t)
          = ''tier_3'')
   \<and> gk_budget_gate (OpusGatekeeper_init monthly_budget spend BUDGET_GATE_THRESHOLD)
        = 40 / 100 * monthly_budget"
  by (simp add: decision_cases classify_category_mandatory classify_category_skip
      decision_precedence_def check_budget_def OpusGatekeeper_init_def MIN_OPUS_BUDGET_def
      check_tier_eligibility_def BUDGET_GATE_THRESHOLD_def Let_def)

text \<open>
  Claim C3, as amended. For every query that contains a keyword of the skip keyword
  sets and no keyword of the mandatory keyword sets, for every tier and every budget
  state, \<open>should_invoke_opus\<close> decides SKIP, hence never INVOKE. (The mandatory keywords
  are looked for first, so a query with keywords of both kinds is of a mandatory
  category.)
\<close>

theorem skip_only_query_never_invokes:
  assumes "has_keyword SKIP_KEYWORDS query" and "\<not> has_keyword MANDATORY_KEYWORDS query"
  shows "gr_decision (should_invoke_opus fmt2 g query tier_arg token_count metadata) = SKIP"
  using assms
  by (simp add: decision_cases classify_category_mandatory classify_category_skip Let_def)

theorem skip_only_query_never_invokes_witness:
  "has_keyword SKIP_KEYWORDS ''fix this syntax error'' \<and>
   \<not> has_keyword MANDATORY_KEYWORDS ''fix this syntax error'' \<and>
   gr_decision (should_invoke_opus (\<lambda>amount. '''') (OpusGatekeeper_init 100 0 BUDGET_GATE_THRESHOLD)
      ''fix this syntax error'' (Some ''tier_3'') 0 ()) = SKIP"
proof -
  have s: "has_keyword SKIP_KEYWORDS ''fix this syntax error''" by code_simp
  have m: "\<not> has_keyword MANDATORY_KEYWORDS ''fix this syntax error''" by code_simp
  show ?thesis
    using s m
      skip_only_query_never_invokes [OF s m, of "\<lambda>amount. ''''"
        "OpusGatekeeper_init 100 0 BUDGET_GATE_THRESHOLD" "Some ''tier_3''" 0 "()"]
    by blast
qed

text \<open>The claim as stated fails: this query contains the skip keyword \<open>fix this bug\<close>,
  and also the mandatory keyword \<open>system\<close>; at tier_3 with the whole budget left the
  decision is INVOKE.\<close>

theorem skip_keyword_query_invoked_counterexample:
  "has_keyword SKIP_KEYWORDS ''fix this bug in the payment system'' \<and>
   gr_decision (should_invoke_opus (\<lambda>amount. '''') (OpusGatekeeper_init 100 0 BUDGET_GATE_THRESHOLD)
      ''fix this bug in the payment system'' (Some ''tier_3'') 0 ()) = INVOKE"
  by code_simp


section \<open>Cost predictor\<close>

lemma predict_and_reserve_check:
  "(ce_can_proceed (predict_and_reserve round_nd fmt2 p query context tier models_arg),
    ce_reason (predict_and_reserve round_nd fmt2 p query context tier models_arg))
   = check_budget_reservation fmt2 p tier
       (ce_estimated_max_cost (predict_and_reserve round_nd fmt2 p query context tier models_arg))"
  by (simp add: predict_and_reserve_def Let_def split_beta)

lemma check_budget_reservation_order:
  "check_budget_reservation fmt2 (DiamondCostPredictor_init monthly_budget spend) tier c =
     (let p = DiamondCostPredictor_init monthly_budget spend;
          remaining = monthly_budget - spend;
          tier_remaining = monthly_budget * tier_allocation p tier - spend * tier_allocation p tier
      in if c > 250 / 100 then
            (False, ''Cost $'' @ fmt2 c @ '' exceeds per-query ceiling of $2.5'')
          else if c > remaining then
            (False, ''Insufficient budget: $'' @ fmt2 c @ '' > $'' @ fmt2 remaining
                      @ '' remaining'')
          else if c > tier_remaining then
            (False, ''Tier budget exceeded: $'' @ fmt2 c @ '' > $'' @ fmt2 tier_remaining
                      @ '' tier budget remaining'')
          else (True, ''Budget available''))"
  by (simp add: check_budget_reservation_def MAX_COST_PER_QUERY_def Let_def
      DiamondCostPredictor_init_def)

text \<open>
  Claim C1. For every query, context, tier, model list and budget state, the estimate of
  \<open>predict_and_reserve\<close> carries the verdict of \<open>check_budget_reservation\<close> on its
  estimated maximum cost, and \<open>can_proceed\<close> holds only if that cost is at most the
  per-query ceiling of $2.50, at most the monthly budget minus the monthly spend, and at
  most the tier's allocation of the budget minus the tier's share of the spend (the
  allocation fraction of the tier applied to the monthly spend). The checks are made in
  this order and the first that fails gives the reason string; a cost above the ceiling
  is refused whatever budget remains.
\<close>

theorem cost_predictor_budget_checks:
  "(let p = DiamondCostPredictor_init monthly_budget spend;
        e = predict_and_reserve round_nd fmt2 p query context tier models_arg;
        remaining = monthly_budget - spend;
        tier_remaining = monthly_budget * tier_allocation p tier - spend * tier_allocation p tier
    in
      ((ce_can_proceed e, ce_reason e)
         = check_budget_reservation fmt2 p tier (ce_estimated_max_cost e))
    \<and> (ce_can_proceed e \<longrightarrow>
           ce_estimated_max_cost e \<le> 250 / 100
         \<and> ce_estimated_max_cost e \<le> remaining
         \<and> ce_estimated_max_cost e \<le> tier_remaining)
    \<and> (ce_estimated_max_cost e > 250 / 100 \<longrightarrow> \<not> ce_can_proceed e)
    \<and> check_budget_reservation fmt2 p tier c =
         (if c > 250 / 100 then
            (False, ''Cost $'' @ fmt2 c @ '' exceeds per-query ceiling of $2.5'')
          else if c > remaining then
            (False, ''Insufficient budget: $'' @ fmt2 c @ '' > $'' @ fmt2 remaining
                      @ '' remaining'')
          else if c > tier_remaining then
            (False, ''Tier budget exceeded: $'' @ fmt2 c @ '' > $'' @ fmt2 tier_remaining
                      @ '' tier budget remaining'')
          else (True, ''Budget available'')))"
proof -
  let ?p = "DiamondCostPredictor_init monthly_budget spend"
  let ?e = "predict_and_reserve round_nd fmt2 ?p query context tier models_arg"
  have link: "(ce_can_proceed ?e, ce_reason ?e)
                = check_budget_reservation fmt2 ?p tier (ce_estimated_max_cost ?e)"
    by (rule predict_and_reserve_check)
  have can: "ce_can_proceed ?e = fst (check_budget_reservation fmt2 ?p tier (ce_estimated_max_cost ?e))"
    using link by (metis fst_conv)
  have only_if: "ce_can_proceed ?e \<longrightarrow>
           ce_estimated_max_cost ?e \<le> 250 / 100
         \<and> ce_estimated_max_cost ?e \<le> monthly_budget - spend
         \<and> ce_estimated_max_cost ?e \<le> monthly_budget * tier_allocation ?p tier - spend * tier_allocation ?p tier"
    unfolding can check_budget_reservation_order Let_def by (simp split: if_splits)
  have ceiling: "ce_estimated_max_cost ?e > 250 / 100 \<longrightarrow> \<not> ce_can_proceed ?e"
    unfolding can check_budget_reservation_order Let_def by simp
  show ?thesis
    unfolding Let_def
    using link only_if ceiling check_budget_reservation_order [of fmt2 monthly_budget spend tier c]
    unfolding Let_def by blast
qed

theorem cost_predictor_budget_checks_witness:
  "ce_can_proceed (predict_and_reserve (\<lambda>x n. x) (\<lambda>x. '''') (DiamondCostPredictor_init 100 0)
       ''fix this syntax error'' '''' ''tier_1'' None)
   \<and> ce_estimated_max_cost (predict_and_reserve (\<lambda>x n. x) (\<lambda>x. '''')
        (DiamondCostPredictor_init 100 0) ''fix this syntax error'' '''' ''tier_1'' None) \<le> 250 / 100
   \<and> ce_estimated_max_cost (predict_and_reserve (\<lambda>x n. x) (\<lambda>x. '''')
        (DiamondCostPredictor_init 100 0) ''summarise'' (replicate 3999990 (CHR ''x'')) ''tier_1'' None) > 250 / 100
   \<and> \<not> ce_can_proceed (predict_and_reserve (\<lambda>x n. x) (\<lambda>x. '''')
        (DiamondCostPredictor_init 100 0) ''summarise'' (replicate 3999990 (CHR ''x'')) ''tier_1'' None)"
proof -
  let ?e1 = "predict_and_reserve (\<lambda>x n. x) (\<lambda>x. '''') (DiamondCostPredictor_init 100 0)
       ''fix this syntax error'' '''' ''tier_1'' None"
  let ?e2 = "predict_and_reserve (\<lambda>x n. x) (\<lambda>x. '''')
        (DiamondCostPredictor_init 100 0) ''summarise'' (replicate 3999990 (CHR ''x'')) ''tier_1'' None"
  have h1: "ce_can_proceed ?e1" by code_simp
  have h2: "ce_estimated_max_cost ?e2 > 250 / 100"
    by (simp add: predict_and_reserve_def estimate_tokens_def estimate_tier_cost_def
        tier_cost_step_def calculate_cost_def get_pricing_def get_models_for_tier_def
        TIER_CONFIG_models_def PERPLEXITY_PRICING_def COUNCIL_MODEL_ALIASES_def
        MODEL_PRICING_def py_int_def AVG_INPUT_TOKENS_PER_CHAR_def
        AVG_OUTPUT_TOKENS_PER_INPUT_def check_budget_reservation_def Let_def)
  from cost_predictor_budget_checks [of 100 0 "\<lambda>x n. x" "\<lambda>x. ''''" "''fix this syntax error''" "''''"
      "''tier_1''" None 0] h1
  have c1: "ce_estimated_max_cost ?e1 \<le> 250 / 100" unfolding Let_def by blast
  from cost_predictor_budget_checks [of 100 0 "\<lambda>x n. x" "\<lambda>x. ''''" "''summarise''"
      "replicate 3999990 (CHR ''x'')" "''tier_1''" None 0] h2
  have c2: "\<not> ce_can_proceed ?e2" unfolding Let_def by blast
  show ?thesis using h1 h2 c1 c2 by blast
qed


section \<open>Verdict extraction\<close>

text \<open>
  Claim C4, as amended. For every free-text string, \<open>_extract_recommendation\<close> returns,
  checking case-insensitively: APPROVED if the text contains APPROVED and does not
  contain CONDITIONAL; otherwise REJECTED if it contains REJECTED; otherwise CONDITIONAL
  if it contains CONDITIONAL or NEEDS_DEBATE; otherwise UNCLEAR. In particular, a text
  containing both APPROVED and CONDITIONAL and not REJECTED yields CONDITIONAL, and a
  text containing none of the tokens yields UNCLEAR.
\<close>

theorem extract_recommendation_order:
  "extract_recommendation content =
     (if mentions ''APPROVED'' content \<and> \<not> mentions ''CONDITIONAL'' content then ''APPROVED''
      else if mentions ''REJECTED'' content then ''REJECTED''
      else if mentions ''CONDITIONAL'' content \<or> mentions ''NEEDS_DEBATE'' content
        then ''CONDITIONAL''
      else ''UNCLEAR'')
   \<and> (mentions ''APPROVED'' content \<and> mentions ''CONDITIONAL'' content
        \<and> \<not> mentions ''REJECTED'' content \<longrightarrow>
          extract_recommendation content = ''CONDITIONAL'')
   \<and> (\<not> mentions ''APPROVED'' content \<and> \<not> mentions ''CONDITIONAL'' content
        \<and> \<not> mentions ''REJECTED'' content \<and> \<not> mentions ''NEEDS_DEBATE'' content \<longrightarrow>
          extract_recommendation content = ''UNCLEAR'')"
  by (simp add: extract_recommendation_def mentions_def Let_def)

theorem extract_recommendation_order_witness:
  "mentions ''APPROVED'' ''Approved, conditional on the load test''
   \<and> mentions ''CONDITIONAL'' ''Approved, conditional on the load test''
   \<and> \<not> mentions ''REJECTED'' ''Approved, conditional on the load test''
   \<and> extract_recommendation ''Approved, conditional on the load test'' = ''CONDITIONAL''
   \<and> \<not> mentions ''APPROVED'' ''Looks fine to me''
   \<and> \<not> mentions ''CONDITIONAL'' ''Looks fine to me''
   \<and> \<not> mentions ''REJECTED'' ''Looks fine to me''
   \<and> \<not> mentions ''NEEDS_DEBATE'' ''Looks fine to me''
   \<and> extract_recommendation ''Looks fine to me'' = ''UNCLEAR''"
proof -
  have a: "mentions ''APPROVED'' ''Approved, conditional on the load test''"
          "mentions ''CONDITIONAL'' ''Approved, conditional on the load test''"
          "\<not> mentions ''REJECTED'' ''Approved, conditional on the load test''"
    by code_simp+
  have b: "\<not> mentions ''APPROVED'' ''Looks fine to me''"
          "\<not> mentions ''CONDITIONAL'' ''Looks fine to me''"
          "\<not> mentions ''REJECTED'' ''Looks fine to me''"
          "\<not> mentions ''NEEDS_DEBATE'' ''Looks fine to me''"
    by code_simp+
  have ra: "extract_recommendation ''Approved, conditional on the load test'' = ''CONDITIONAL''"
    using extract_recommendation_order [of "''Approved, conditional on the load test''"] a
    by blast
  have rb: "extract_recommendation ''Looks fine to me'' = ''UNCLEAR''"
    using extract_recommendation_order [of "''Looks fine to me''"] b by blast
  show ?thesis using a b ra rb by blast
qed

text \<open>The claim as stated fails: this text contains REJECTED, and the verdict
  extracted is APPROVED, because the test for APPROVED without CONDITIONAL comes
  first.\<close>

theorem extract_recommendation_rejected_counterexample:
  "mentions ''REJECTED'' ''Plan A: APPROVED. Plan B: REJECTED.''
   \<and> extract_recommendation ''Plan A: APPROVED. Plan B: REJECTED.'' = ''APPROVED''"
  by code_simp


section \<open>Model client\<close>

lemma all_timeouts_rec:
  assumes "\<forall>n. backend n model = HttpTimeout"
  shows "attempt \<le> gw_max_retries gw \<Longrightarrow>
         call_model_rec gw fbs backend t model attempt sent =
           Some (failed_response model (''Request timeout after '' @ str_nat t @ ''s''),
                 sent @ replicate (gw_max_retries gw + 1 - attempt) (model, t))"
proof (induction "gw_max_retries gw - attempt" arbitrary: attempt sent)
  case 0
  then have "attempt = gw_max_retries gw" by simp
  then show ?case
    using assms by (subst call_model_rec.simps) simp
next
  case (Suc k)
  then have lt: "attempt < gw_max_retries gw" by simp
  have "k = gw_max_retries gw - (attempt + 1)" using Suc.hyps(2) by simp
  moreover have "attempt + 1 \<le> gw_max_retries gw" using lt by simp
  ultimately have IH: "call_model_rec gw fbs backend t model (attempt + 1) (sent @ [(model, t)]) =
           Some (failed_response model (''Request timeout after '' @ str_nat t @ ''s''),
                 (sent @ [(model, t)]) @ replicate (gw_max_retries gw + 1 - (attempt + 1)) (model, t))"
    using Suc.hyps(1) by blast
  have rep: "[(model, t)] @ replicate (gw_max_retries gw + 1 - (attempt + 1)) (model, t)
               = replicate (gw_max_retries gw + 1 - attempt) (model, t)"
    using lt by (metis Suc_diff_le Suc_eq_plus1 append_Cons append_Nil diff_Suc_Suc
        less_imp_le_nat replicate_Suc)
  show ?case
    using assms lt IH rep by (subst call_model_rec.simps) simp
qed

lemma timeouts_stay_Cons:
  "timeouts_stay backend n (x # ext) =
     ((ext \<noteq> [] \<longrightarrow> (backend n (fst x) = HttpTimeout \<longrightarrow> hd ext = x)
        \<and> timeouts_stay backend (Suc n) ext))"
  by (cases ext) auto

lemma timeouts_stay_nth:
  "timeouts_stay backend n tr \<Longrightarrow> Suc i < length tr \<Longrightarrow>
   backend (n + i) (fst (tr ! i)) = HttpTimeout \<Longrightarrow> tr ! Suc i = tr ! i"
proof (induction backend n tr arbitrary: i rule: timeouts_stay.induct)
  case (3 backend n x y rest)
  show ?case
  proof (cases i)
    case 0
    then show ?thesis using 3 by simp
  next
    case (Suc j)
    then show ?thesis using 3 by simp
  qed
qed simp_all

lemma call_model_rec_trace:
  assumes "call_model_rec gw fbs backend t model attempt sent = Some y"
  shows "\<exists>ext. snd y = sent @ ext \<and> (ext \<noteq> [] \<longrightarrow> hd ext = (model, t))
         \<and> timeouts_stay backend (length sent) ext"
proof (rule call_model_rec.raw_induct
    [where P = "\<lambda>gw fbs backend t model attempt sent y.
       \<exists>ext. snd y = sent @ ext \<and> (ext \<noteq> [] \<longrightarrow> hd ext = (model, t))
         \<and> timeouts_stay backend (length sent) ext", OF _ assms], goal_cases)
  case (1 rec gw fbs backend t model attempt sent y)
  show ?case
  proof (cases "gw_max_retries gw + 1 \<le> attempt")
    case True
    then show ?thesis using 1(2) by auto
  next
    case False
    show ?thesis
    proof (cases "backend (length sent) model")
      case (HttpOk c k)
      then show ?thesis using 1(2) False by auto
    next
      case (HttpNoContent e)
      then show ?thesis using 1(2) False by auto
    next
      case HttpTimeout
      show ?thesis
      proof (cases "attempt < gw_max_retries gw")
        case True
        then have "rec gw fbs backend t model (attempt + 1) (sent @ [(model, t)]) = Some y"
          using 1(2) False HttpTimeout by simp
        from 1(1) [OF this] obtain ext where
          e: "snd y = (sent @ [(model, t)]) @ ext" "ext \<noteq> [] \<longrightarrow> hd ext = (model, t)"
             "timeouts_stay backend (length (sent @ [(model, t)])) ext" by blast
        have "snd y = sent @ ((model, t) # ext)" using e(1) by simp
        moreover have "timeouts_stay backend (length sent) ((model, t) # ext)"
          using e(2,3) by (simp add: timeouts_stay_Cons)
        ultimately show ?thesis by (metis list.sel(1))
      next
        case no: False
        then show ?thesis using 1(2) False HttpTimeout by auto
      qed
    next
      case (HttpRequestException e)
      show ?thesis
      proof (cases "\<exists>f. map_of fbs model = Some f \<and> f \<noteq> [] \<and> attempt = 0")
        case True
        then obtain f where f: "map_of fbs model = Some f" "f \<noteq> []" "attempt = 0" by blast
        then have "rec gw fbs backend t f 0 (sent @ [(model, t)]) = Some y"
          using 1(2) False HttpRequestException by simp
        from 1(1) [OF this] obtain ext where
          e: "snd y = (sent @ [(model, t)]) @ ext"
             "timeouts_stay backend (length (sent @ [(model, t)])) ext" by blast
        have "snd y = sent @ ((model, t) # ext)" using e(1) by simp
        moreover have "timeouts_stay backend (length sent) ((model, t) # ext)"
          using e(2) HttpRequestException by (simp add: timeouts_stay_Cons)
        ultimately show ?thesis by (metis list.sel(1))
      next
        case no: False
        then show ?thesis using 1(2) False HttpRequestException
          by (auto split: option.splits if_splits)
      qed
    next
      case (HttpException e)
      then show ?thesis using 1(2) False by auto
    qed
  qed
qed

text \<open>
  Claim C6, as amended. For every call of the Model Client \<open>call_model\<close> of gateway.py:
  a request that fails with a network timeout is followed, if by anything, by a request
  to the same model alias with the same timeout value, never by a hop to a fallback
  alias; and when every request for the alias times out, the alias is tried once and
  retried up to the retry budget (2 additional attempts in the shipped gateway), after
  which the call returns a failed response whose error reports the timeout. In
  \<open>_execute_model\<close> of the stage executor, by contrast, a gateway request that times out
  is not retried: the call goes on with the configured fallback alias when there is one,
  non-empty and different from the model, and otherwise returns a failed response whose
  error reports the timeout.
\<close>

theorem call_model_timeout_retries_same_model:
  "((\<forall>n. backend n model = HttpTimeout) \<longrightarrow>
      call_model gw fallbacks backend model timeout_arg =
        Some (failed_response model
                (''Request timeout after ''
                   @ str_nat (timeout_or timeout_arg (gw_default_timeout gw)) @ ''s''),
              replicate (1 + gw_max_retries gw)
                (model, timeout_or timeout_arg (gw_default_timeout gw))))
   \<and> (\<forall>response sent i.
        call_model gw fallbacks backend model timeout_arg = Some (response, sent)
        \<and> Suc i < length sent \<and> backend i (fst (sent ! i)) = HttpTimeout
        \<longrightarrow> sent ! Suc i = sent ! i)
   \<and> gw_max_retries CouncilGateway_init = 2
   \<and> (\<not> (startswith m ''perplexity-'' \<and> pe_perplexity pe)
        \<and> llm (length asked) m = ExecTimeout
        \<and> map_of fallbacks m = Some fb \<and> fb \<noteq> [] \<and> fb \<noteq> m
        \<longrightarrow> execute_model_rec pe fallbacks llm search m t asked
              = execute_model_rec pe fallbacks llm search fb t (asked @ [m]))
   \<and> (\<not> (startswith m ''perplexity-'' \<and> pe_perplexity pe)
        \<and> llm (length asked) m = ExecTimeout
        \<and> (map_of fallbacks m = None \<or> map_of fallbacks m = Some []
             \<or> map_of fallbacks m = Some m)
        \<longrightarrow> execute_model_rec pe fallbacks llm search m t asked
              = Some (failed_model_response m (of_nat t)
                        (''Timeout after '' @ str_nat t @ ''s''),
                      asked @ [m]))"
proof (intro conjI allI impI)
  assume all: "\<forall>n. backend n model = HttpTimeout"
  show "call_model gw fallbacks backend model timeout_arg =
        Some (failed_response model
                (''Request timeout after ''
                   @ str_nat (timeout_or timeout_arg (gw_default_timeout gw)) @ ''s''),
              replicate (1 + gw_max_retries gw)
                (model, timeout_or timeout_arg (gw_default_timeout gw)))"
    using all_timeouts_rec [where backend = backend and model = model and attempt = 0
        and gw = gw and fbs = fallbacks and sent = "[]", OF all]
    by (simp add: call_model_def Let_def)
next
  fix response sent i
  assume h: "call_model gw fallbacks backend model timeout_arg = Some (response, sent)
        \<and> Suc i < length sent \<and> backend i (fst (sent ! i)) = HttpTimeout"
  then have "call_model_rec gw fallbacks backend
               (timeout_or timeout_arg (gw_default_timeout gw)) model 0 []
             = Some (response, sent)"
    by (simp add: call_model_def Let_def)
  from call_model_rec_trace [OF this] have "timeouts_stay backend 0 sent" by simp
  from timeouts_stay_nth [OF this, of i] h show "sent ! Suc i = sent ! i" by simp
next
  show "gw_max_retries CouncilGateway_init = 2" by (simp add: CouncilGateway_init_def)
next
  assume "\<not> (startswith m ''perplexity-'' \<and> pe_perplexity pe)
        \<and> llm (length asked) m = ExecTimeout
        \<and> map_of fallbacks m = Some fb \<and> fb \<noteq> [] \<and> fb \<noteq> m"
  then show "execute_model_rec pe fallbacks llm search m t asked
              = execute_model_rec pe fallbacks llm search fb t (asked @ [m])"
    by (subst execute_model_rec.simps) auto
next
  assume "\<not> (startswith m ''perplexity-'' \<and> pe_perplexity pe)
        \<and> llm (length asked) m = ExecTimeout
        \<and> (map_of fallbacks m = None \<or> map_of fallbacks m = Some []
             \<or> map_of fallbacks m = Some m)"
  then show "execute_model_rec pe fallbacks llm search m t asked
              = Some (failed_model_response m (of_nat t)
                        (''Timeout after '' @ str_nat t @ ''s''),
                      asked @ [m])"
    by (subst execute_model_rec.simps) auto
qed

text \<open>A backend on which \<open>deepseek-v3\<close> always times out: the shipped gateway with
  the shipped fallbacks sends three requests, all to \<open>deepseek-v3\<close> with the timeout
  of 60 seconds, and reports the timeout.\<close>

theorem call_model_timeout_retries_same_model_witness:
  "(\<forall>n. (\<lambda>n m. if m = ''deepseek-v3'' then HttpTimeout else HttpOk ''ok'' 7) n ''deepseek-v3''
          = HttpTimeout)
   \<and> call_model CouncilGateway_init MODEL_FALLBACKS
        (\<lambda>n m. if m = ''deepseek-v3'' then HttpTimeout else HttpOk ''ok'' 7)
        ''deepseek-v3'' (Some 60)
      = Some (failed_response ''deepseek-v3'' ''Request timeout after 60s'',
              [(''deepseek-v3'', 60), (''deepseek-v3'', 60), (''deepseek-v3'', 60)])
   \<and> Suc 0 < length [(''deepseek-v3'', 60::nat), (''deepseek-v3'', 60), (''deepseek-v3'', 60)]
   \<and> [(''deepseek-v3'', 60::nat), (''deepseek-v3'', 60), (''deepseek-v3'', 60)] ! Suc 0
        = [(''deepseek-v3'', 60), (''deepseek-v3'', 60), (''deepseek-v3'', 60)] ! 0
   \<and> map_of MODEL_FALLBACKS ''deepseek-v3'' = Some ''gemini-flash''
   \<and> execute_model_rec (ParallelExecutor_init None 5 120 False) MODEL_FALLBACKS
        (\<lambda>n m. ExecTimeout) (\<lambda>q. SearchException ''unused'' 0) ''deepseek-v3'' 60 []
      = execute_model_rec (ParallelExecutor_init None 5 120 False) MODEL_FALLBACKS
          (\<lambda>n m. ExecTimeout) (\<lambda>q. SearchException ''unused'' 0) ''gemini-flash'' 60
          [''deepseek-v3'']
   \<and> map_of MODEL_FALLBACKS ''gemini-flash-fallback'' = None
   \<and> execute_model_rec (ParallelExecutor_init None 5 120 False) MODEL_FALLBACKS
        (\<lambda>n m. ExecTimeout) (\<lambda>q. SearchException ''unused'' 0) ''gemini-flash-fallback'' 60 []
      = Some (failed_model_response ''gemini-flash-fallback'' 60 ''Timeout after 60s'',
              [''gemini-flash-fallback''])"
proof -
  let ?backend = "\<lambda>(n::nat) m. if m = ''deepseek-v3'' then HttpTimeout else HttpOk ''ok'' 7"
  let ?pe = "ParallelExecutor_init None 5 120 False"
  let ?llm = "\<lambda>(n::nat) (m::string). ExecTimeout"
  let ?search = "\<lambda>q::string. SearchException ''unused'' 0"
  note inst1 = call_model_timeout_retries_same_model
     [where backend = "?backend" and model = "''deepseek-v3''" and gw = CouncilGateway_init
        and fallbacks = MODEL_FALLBACKS and timeout_arg = "Some 60"
        and m = "''deepseek-v3''" and pe = "?pe" and llm = "?llm" and asked = "[]"
        and fb = "''gemini-flash''" and search = "?search" and t = 60]
  note inst2 = call_model_timeout_retries_same_model
     [where backend = "?backend" and model = "''deepseek-v3''" and gw = CouncilGateway_init
        and fallbacks = MODEL_FALLBACKS and timeout_arg = "Some 60"
        and m = "''gemini-flash-fallback''" and pe = "?pe" and llm = "?llm" and asked = "[]"
        and fb = "''gemini-flash''" and search = "?search" and t = 60]
  have all: "\<forall>n. ?backend n ''deepseek-v3'' = HttpTimeout" by simp
  have sixty: "str_nat 60 = ''60''" by code_simp
  have rep: "replicate (1 + gw_max_retries CouncilGateway_init) (''deepseek-v3'', 60::nat)
               = [(''deepseek-v3'', 60), (''deepseek-v3'', 60), (''deepseek-v3'', 60)]"
    by code_simp
  have t60: "timeout_or (Some 60) (gw_default_timeout CouncilGateway_init) = 60"
    by (simp add: timeout_or_def)
  have "(\<forall>n. ?backend n ''deepseek-v3'' = HttpTimeout) \<longrightarrow>
        call_model CouncilGateway_init MODEL_FALLBACKS ?backend ''deepseek-v3'' (Some 60) =
        Some (failed_response ''deepseek-v3''
                (''Request timeout after ''
                   @ str_nat (timeout_or (Some 60) (gw_default_timeout CouncilGateway_init))
                   @ ''s''),
              replicate (1 + gw_max_retries CouncilGateway_init)
                (''deepseek-v3'',
                 timeout_or (Some 60) (gw_default_timeout CouncilGateway_init)))"
    using inst1 by (rule conjunct1)
  with all have "call_model CouncilGateway_init MODEL_FALLBACKS ?backend ''deepseek-v3'' (Some 60) =
        Some (failed_response ''deepseek-v3'' (''Request timeout after '' @ str_nat 60 @ ''s''),
              replicate (1 + gw_max_retries CouncilGateway_init) (''deepseek-v3'', 60))"
    by (simp add: t60)
  then have run: "call_model CouncilGateway_init MODEL_FALLBACKS ?backend ''deepseek-v3'' (Some 60)
      = Some (failed_response ''deepseek-v3'' ''Request timeout after 60s'',
              [(''deepseek-v3'', 60), (''deepseek-v3'', 60), (''deepseek-v3'', 60)])"
    by (simp only: rep sixty append.simps)
  have fb: "map_of MODEL_FALLBACKS ''deepseek-v3'' = Some ''gemini-flash''"
    and nofb: "map_of MODEL_FALLBACKS ''gemini-flash-fallback'' = None"
    by (simp_all add: MODEL_FALLBACKS_def)
  have np: "\<not> (startswith ''deepseek-v3'' ''perplexity-'' \<and> pe_perplexity ?pe)"
           "\<not> (startswith ''gemini-flash-fallback'' ''perplexity-'' \<and> pe_perplexity ?pe)"
    by simp_all
  have hop: "execute_model_rec ?pe MODEL_FALLBACKS ?llm ?search ''deepseek-v3'' 60 []
      = execute_model_rec ?pe MODEL_FALLBACKS ?llm ?search ''gemini-flash'' 60 [''deepseek-v3'']"
    using inst1 fb np(1) by simp
  have stop: "execute_model_rec ?pe MODEL_FALLBACKS ?llm ?search ''gemini-flash-fallback'' 60 []
      = Some (failed_model_response ''gemini-flash-fallback'' 60 ''Timeout after 60s'',
              [''gemini-flash-fallback''])"
    using inst2 nofb np(2) by (simp add: sixty)
  show ?thesis using all run fb hop nofb stop by simp
qed

text \<open>The claim as stated fails on \<open>_execute_model\<close>: when \<open>deepseek-v3\<close> times out,
  the very next request goes to its fallback \<open>gemini-flash\<close>, whose answer is returned;
  \<open>deepseek-v3\<close> is not tried again.\<close>

theorem execute_model_timeout_hops_counterexample:
  "execute_model (ParallelExecutor_init None 5 120 False) MODEL_FALLBACKS
     (\<lambda>n m. if m = ''deepseek-v3'' then ExecTimeout else ExecOk ''ok'' 1 1 2 1)
     (\<lambda>q. SearchException ''unused'' 0) ''deepseek-v3'' (Some 60)
   = Some (\<lparr> mr_model = ''gemini-flash'', mr_content = ''ok'', mr_success = True,
             mr_latency_seconds = 1, mr_cost = estimate_cost ''gemini-flash'' 1 1,
             mr_tokens_used = 2, mr_error = None, mr_fallback_used = None \<rparr>,
           [''deepseek-v3'', ''gemini-flash''])"
  by (simp add: execute_model_def ParallelExecutor_init_def MODEL_FALLBACKS_def
      timeout_or_def execute_model_rec.simps [of _ _ _ _ "''deepseek-v3''"]
      execute_model_rec.simps [of _ _ _ _ "''gemini-flash''"])

lemma fallback_edges_finite: "finite (fallback_edges fallbacks)"
proof -
  have "fallback_edges fallbacks \<subseteq> set fallbacks"
    by (auto simp: fallback_edges_def dest: map_of_SomeD)
  then show ?thesis by (rule finite_subset) simp
qed

lemma acyclic_has_chain:
  assumes "acyclic (fallback_edges fallbacks)"
  shows "\<exists>ms. fallback_chain fallbacks m ms"
proof -
  have wf: "wf ((fallback_edges fallbacks)\<inverse>)"
    using fallback_edges_finite assms by (rule finite_acyclic_wf_converse)
  show ?thesis
  proof (induction m rule: wf_induct_rule [OF wf])
    case (1 m)
    show ?case
    proof (cases "\<exists>f. map_of fallbacks m = Some f \<and> f \<noteq> []")
      case True
      then obtain f where f: "map_of fallbacks m = Some f" "f \<noteq> []" by blast
      then have "(f, m) \<in> (fallback_edges fallbacks)\<inverse>" by (simp add: fallback_edges_def)
      from 1 [OF this] obtain ms where "fallback_chain fallbacks f ms" by blast
      with f have "fallback_chain fallbacks m (m # ms)" by (rule chain_hop)
      then show ?thesis by blast
    next
      case False
      then have "map_of fallbacks m = None \<or> map_of fallbacks m = Some []"
        by (cases "map_of fallbacks m") auto
      then have "fallback_chain fallbacks m [m]" by (rule chain_end)
      then show ?thesis by blast
    qed
  qed
qed

lemma persistent_failure_walks_chain:
  assumes "fallback_chain fallbacks m ms" and "persistent_request_failure backend"
  shows "\<exists>response. call_model_rec gw fallbacks backend t m 0 sent
                      = Some (response, sent @ map (\<lambda>x. (x, t)) ms)
                    \<and> \<not> resp_success response"
  using assms(1)
proof (induction arbitrary: sent rule: fallback_chain.induct)
  case (chain_end m)
  obtain e where e: "backend (length sent) m = HttpRequestException e"
    using assms(2) by (auto simp: persistent_request_failure_def)
  show ?case
    using chain_end e
    by (subst call_model_rec.simps) (auto simp: failed_response_def)
next
  case (chain_hop m f ms)
  obtain e where e: "backend (length sent) m = HttpRequestException e"
    using assms(2) by (auto simp: persistent_request_failure_def)
  from chain_hop.IH [of "sent @ [(m, t)]"] obtain response where
    r: "call_model_rec gw fallbacks backend t f 0 (sent @ [(m, t)])
          = Some (response, (sent @ [(m, t)]) @ map (\<lambda>x. (x, t)) ms)"
       "\<not> resp_success response" by blast
  have "call_model_rec gw fallbacks backend t m 0 sent
          = call_model_rec gw fallbacks backend t f 0 (sent @ [(m, t)])"
    using chain_hop.hyps e by (subst call_model_rec.simps) simp
  with r show ?case by simp
qed

text \<open>
  Claim C7. For every fallback configuration without a cycle and every model alias,
  the fallback chain that starts at the alias is finite, and a call whose backend
  answers every request with a non-timeout request failure returns: it yields a failed
  response after at most chain length times (1 + retry budget) requests.
\<close>

theorem acyclic_fallback_terminates:
  assumes "acyclic (fallback_edges fallbacks)" and "persistent_request_failure backend"
  shows "\<exists>chain response sent.
           fallback_chain fallbacks model chain
         \<and> call_model gw fallbacks backend model timeout_arg = Some (response, sent)
         \<and> \<not> resp_success response
         \<and> length sent \<le> length chain * (1 + gw_max_retries gw)"
proof -
  obtain chain where c: "fallback_chain fallbacks model chain"
    using acyclic_has_chain [OF assms(1)] by blast
  from persistent_failure_walks_chain [OF c assms(2), of gw _ "[]"]
  obtain response where
    r: "call_model_rec gw fallbacks backend (timeout_or timeout_arg (gw_default_timeout gw))
          model 0 [] = Some (response, map (\<lambda>x. (x, timeout_or timeout_arg (gw_default_timeout gw))) chain)"
       "\<not> resp_success response"
    by (metis append_Nil)
  have "length (map (\<lambda>x. (x, timeout_or timeout_arg (gw_default_timeout gw))) chain)
          \<le> length chain * (1 + gw_max_retries gw)" by simp
  with c r show ?thesis
    unfolding call_model_def Let_def by blast
qed

text \<open>The shipped configuration without the entry that closes its cycle, on a backend
  that refuses every connection: a call for \<open>kimi-researcher\<close> walks the chain
  \<open>kimi-researcher\<close>, \<open>kimi-synthesis\<close>, \<open>claude-sonnet\<close>, \<open>opus-synthesis\<close> and
  fails.\<close>

theorem acyclic_fallback_terminates_witness:
  "acyclic (fallback_edges
      [(''kimi-researcher'', ''kimi-synthesis''), (''kimi-synthesis'', ''claude-sonnet''),
       (''claude-sonnet'', ''opus-synthesis'')])
   \<and> persistent_request_failure (\<lambda>n m. HttpRequestException ''connection refused'')
   \<and> (\<exists>chain response sent.
         fallback_chain
           [(''kimi-researcher'', ''kimi-synthesis''), (''kimi-synthesis'', ''claude-sonnet''),
            (''claude-sonnet'', ''opus-synthesis'')] ''kimi-researcher'' chain
       \<and> call_model CouncilGateway_init
            [(''kimi-researcher'', ''kimi-synthesis''), (''kimi-synthesis'', ''claude-sonnet''),
             (''claude-sonnet'', ''opus-synthesis'')]
            (\<lambda>n m. HttpRequestException ''connection refused'') ''kimi-researcher'' None
           = Some (response, sent)
       \<and> \<not> resp_success response
       \<and> length sent \<le> length chain * (1 + gw_max_retries CouncilGateway_init))"
proof -
  let ?fbs = "[(''kimi-researcher'', ''kimi-synthesis''), (''kimi-synthesis'', ''claude-sonnet''),
       (''claude-sonnet'', ''opus-synthesis'')]"
  have edges: "fallback_edges ?fbs =
      {(''kimi-researcher'', ''kimi-synthesis''), (''kimi-synthesis'', ''claude-sonnet''),
       (''claude-sonnet'', ''opus-synthesis'')}"
    by (auto simp: fallback_edges_def split: if_splits)
  have none: "acyclic ({} :: (string \<times> string) set)"
    by (simp add: acyclic_def)
  have a: "acyclic (fallback_edges ?fbs)"
    unfolding edges by (simp add: acyclic_insert rtrancl_insert none)
  have p: "persistent_request_failure (\<lambda>n m. HttpRequestException ''connection refused'')"
    by (simp add: persistent_request_failure_def)
  show ?thesis
    using a p acyclic_fallback_terminates [OF a p, of "''kimi-researcher''" CouncilGateway_init None]
    by blast
qed

lemma shipped_cycle_entries:
  "map_of MODEL_FALLBACKS ''claude-sonnet'' = Some ''opus-synthesis''"
  "map_of MODEL_FALLBACKS ''opus-synthesis'' = Some ''claude-sonnet''"
  by (simp_all add: MODEL_FALLBACKS_def)

lemma shipped_cycle_runs_to_limit:
  assumes fail: "persistent_request_failure backend"
  shows "m = ''claude-sonnet'' \<or> m = ''opus-synthesis'' \<Longrightarrow> length sent \<le> limit \<Longrightarrow>
         call_model_rec gw MODEL_FALLBACKS (recursion_limited limit msg backend) t m 0 sent
           = Some (failed_response (nth_fallback MODEL_FALLBACKS m (limit - length sent))
                     (''Unexpected error: '' @ take 100 msg),
                   sent @ map (\<lambda>i. (nth_fallback MODEL_FALLBACKS m i, t))
                            [0 ..< Suc (limit - length sent)])"
proof (induction "limit - length sent" arbitrary: m sent)
  case 0
  then have "recursion_limited limit msg backend (length sent) m = HttpException msg"
    by (simp add: recursion_limited_def)
  then show ?case
    using 0 by (subst call_model_rec.simps) simp
next
  case (Suc k)
  then have lt: "length sent < limit" by simp
  obtain e where "backend (length sent) m = HttpRequestException e"
    using fail by (auto simp: persistent_request_failure_def)
  then have e: "recursion_limited limit msg backend (length sent) m = HttpRequestException e"
    using lt by (simp add: recursion_limited_def)
  obtain f where f: "map_of MODEL_FALLBACKS m = Some f" "f \<noteq> []"
    "f = ''claude-sonnet'' \<or> f = ''opus-synthesis''"
    using Suc.prems(1) shipped_cycle_entries by auto
  have k: "k = limit - length (sent @ [(m, t)])" using Suc.hyps(2) by simp
  have le: "length (sent @ [(m, t)]) \<le> limit" using lt by simp
  have hop: "call_model_rec gw MODEL_FALLBACKS (recursion_limited limit msg backend) t m 0 sent
          = call_model_rec gw MODEL_FALLBACKS (recursion_limited limit msg backend) t f 0
              (sent @ [(m, t)])"
    using e f by (subst call_model_rec.simps) simp
  have d: "limit - length sent = Suc k" using Suc.hyps(2) by simp
  have shift: "map (\<lambda>i. (nth_fallback MODEL_FALLBACKS m i, t)) [0 ..< Suc (Suc k)]
          = (m, t) # map (\<lambda>i. (nth_fallback MODEL_FALLBACKS f i, t)) [0 ..< Suc k]"
    using f(1) by (simp only: map_upt_Suc [of _ "Suc k"] nth_fallback.simps option.case)
  show ?case
    unfolding hop Suc.hyps(1) [OF k f(3) le] d
    using f(1) k [symmetric] shift by simp
qed

text \<open>
  Claim C10, as amended. The shipped fallback configuration \<open>MODEL_FALLBACKS\<close> has a
  cycle: \<open>claude-sonnet\<close> falls back to \<open>opus-synthesis\<close> and \<open>opus-synthesis\<close> falls
  back to \<open>claude-sonnet\<close>. Consequently, for a call to either alias whose backend
  answers every request with a non-timeout request failure, the recursive fallback of
  \<open>call_model\<close> does not end by itself: the call sends one request per hop,
  alternating between the two aliases, for as long as the interpreter's recursion limit
  allows. At the limit the \<open>RecursionError\<close> raised in the \<open>try\<close> block is caught by
  \<open>except Exception\<close>, and the call returns a failed response whose error is
  \<open>Unexpected error\<close> with the message of the exception.
\<close>

theorem shipped_fallbacks_cycle_ends_at_recursion_limit:
  "map_of MODEL_FALLBACKS ''claude-sonnet'' = Some ''opus-synthesis''
   \<and> map_of MODEL_FALLBACKS ''opus-synthesis'' = Some ''claude-sonnet''
   \<and> \<not> acyclic (fallback_edges MODEL_FALLBACKS)
   \<and> (persistent_request_failure backend
        \<and> (start = ''claude-sonnet'' \<or> start = ''opus-synthesis'') \<longrightarrow>
         call_model gw MODEL_FALLBACKS (recursion_limited limit msg backend) start timeout_arg
           = Some (failed_response (nth_fallback MODEL_FALLBACKS start limit)
                     (''Unexpected error: '' @ take 100 msg),
                   map (\<lambda>i. (nth_fallback MODEL_FALLBACKS start i,
                              timeout_or timeout_arg (gw_default_timeout gw)))
                       [0 ..< Suc limit]))"
proof (intro conjI impI)
  show "map_of MODEL_FALLBACKS ''claude-sonnet'' = Some ''opus-synthesis''"
    and "map_of MODEL_FALLBACKS ''opus-synthesis'' = Some ''claude-sonnet''"
    by (rule shipped_cycle_entries)+
next
  have "(''claude-sonnet'', ''opus-synthesis'') \<in> fallback_edges MODEL_FALLBACKS"
    and "(''opus-synthesis'', ''claude-sonnet'') \<in> fallback_edges MODEL_FALLBACKS"
    by (simp_all add: fallback_edges_def shipped_cycle_entries)
  then have "(''claude-sonnet'', ''claude-sonnet'') \<in> (fallback_edges MODEL_FALLBACKS)\<^sup>+"
    by (meson trancl.r_into_trancl trancl_trans)
  then show "\<not> acyclic (fallback_edges MODEL_FALLBACKS)"
    by (auto simp: acyclic_def)
next
  assume h: "persistent_request_failure backend
        \<and> (start = ''claude-sonnet'' \<or> start = ''opus-synthesis'')"
  then have pf: "persistent_request_failure backend"
    and st: "start = ''claude-sonnet'' \<or> start = ''opus-synthesis''" by simp_all
  show "call_model gw MODEL_FALLBACKS (recursion_limited limit msg backend) start timeout_arg
           = Some (failed_response (nth_fallback MODEL_FALLBACKS start limit)
                     (''Unexpected error: '' @ take 100 msg),
                   map (\<lambda>i. (nth_fallback MODEL_FALLBACKS start i,
                              timeout_or timeout_arg (gw_default_timeout gw)))
                       [0 ..< Suc limit])"
    using shipped_cycle_runs_to_limit [OF pf st, of "[]" limit gw msg]
    by (simp add: call_model_def Let_def)
qed

text \<open>A backend that refuses every connection, with room for three hops: the requests
  go to \<open>claude-sonnet\<close>, \<open>opus-synthesis\<close>, \<open>claude-sonnet\<close> and \<open>opus-synthesis\<close>,
  and the last call returns the failure.\<close>

theorem shipped_fallbacks_cycle_ends_at_recursion_limit_witness:
  "persistent_request_failure (\<lambda>n m. HttpRequestException ''connection refused'')
   \<and> call_model CouncilGateway_init MODEL_FALLBACKS
        (recursion_limited 3 ''maximum recursion depth exceeded''
           (\<lambda>n m. HttpRequestException ''connection refused''))
        ''claude-sonnet'' None
      = Some (failed_response ''opus-synthesis''
                ''Unexpected error: maximum recursion depth exceeded'',
              [(''claude-sonnet'', 120), (''opus-synthesis'', 120),
               (''claude-sonnet'', 120), (''opus-synthesis'', 120)])"
proof -
  have p: "persistent_request_failure (\<lambda>n m. HttpRequestException ''connection refused'')"
    by (simp add: persistent_request_failure_def)
  have run: "call_model CouncilGateway_init MODEL_FALLBACKS
        (recursion_limited 3 ''maximum recursion depth exceeded''
           (\<lambda>n m. HttpRequestException ''connection refused''))
        ''claude-sonnet'' None
      = Some (failed_response (nth_fallback MODEL_FALLBACKS ''claude-sonnet'' 3)
                (''Unexpected error: '' @ take 100 ''maximum recursion depth exceeded''),
              map (\<lambda>i. (nth_fallback MODEL_FALLBACKS ''claude-sonnet'' i,
                         timeout_or None (gw_default_timeout CouncilGateway_init)))
                  [0 ..< Suc 3])"
    using p shipped_fallbacks_cycle_ends_at_recursion_limit
            [of "\<lambda>n m. HttpRequestException ''connection refused''" "''claude-sonnet''"
                CouncilGateway_init 3 "''maximum recursion depth exceeded''" None]
    by blast
  have last: "nth_fallback MODEL_FALLBACKS ''claude-sonnet'' 3 = ''opus-synthesis''"
    by code_simp
  have t: "timeout_or None (gw_default_timeout CouncilGateway_init) = 120"
    by (simp add: timeout_or_def CouncilGateway_init_def)
  have seq: "map (\<lambda>i. (nth_fallback MODEL_FALLBACKS ''claude-sonnet'' i, 120::nat)) [0 ..< Suc 3]
               = [(''claude-sonnet'', 120), (''opus-synthesis'', 120),
                  (''claude-sonnet'', 120), (''opus-synthesis'', 120)]"
    by code_simp
  have msg: "''Unexpected error: '' @ take 100 ''maximum recursion depth exceeded''
               = ''Unexpected error: maximum recursion depth exceeded''"
    by simp
  from run have "call_model CouncilGateway_init MODEL_FALLBACKS
        (recursion_limited 3 ''maximum recursion depth exceeded''
           (\<lambda>n m. HttpRequestException ''connection refused''))
        ''claude-sonnet'' None
      = Some (failed_response ''opus-synthesis''
                ''Unexpected error: maximum recursion depth exceeded'',
              [(''claude-sonnet'', 120), (''opus-synthesis'', 120),
               (''claude-sonnet'', 120), (''opus-synthesis'', 120)])"
    by (simp only: last t seq msg)
  with p show ?thesis by (rule conjI)
qed

text \<open>The claim as stated fails: with the backend refusing every connection and the
  recursion limit reached after 1000 hops, the call for \<open>claude-sonnet\<close> returns a
  response, the failure reported by the call at the limit.\<close>

theorem shipped_cycle_call_returns_counterexample:
  "persistent_request_failure (\<lambda>n m. HttpRequestException ''connection refused'')
   \<and> call_model CouncilGateway_init MODEL_FALLBACKS
        (recursion_limited 1000 ''maximum recursion depth exceeded''
           (\<lambda>n m. HttpRequestException ''connection refused''))
        ''claude-sonnet'' None
      = Some (failed_response (nth_fallback MODEL_FALLBACKS ''claude-sonnet'' 1000)
                ''Unexpected error: maximum recursion depth exceeded'',
              map (\<lambda>i. (nth_fallback MODEL_FALLBACKS ''claude-sonnet'' i, 120)) [0 ..< 1001])"
proof -
  have p: "persistent_request_failure (\<lambda>n m. HttpRequestException ''connection refused'')"
    by (simp add: persistent_request_failure_def)
  have t: "timeout_or None (gw_default_timeout CouncilGateway_init) = 120"
    by (simp add: timeout_or_def CouncilGateway_init_def)
  have "call_model_rec CouncilGateway_init MODEL_FALLBACKS
        (recursion_limited 1000 ''maximum recursion depth exceeded''
           (\<lambda>n m. HttpRequestException ''connection refused'')) 120 ''claude-sonnet'' 0 []
      = Some (failed_response (nth_fallback MODEL_FALLBACKS ''claude-sonnet'' (1000 - length ([] :: (string \<times> nat) list)))
                (''Unexpected error: '' @ take 100 ''maximum recursion depth exceeded''),
              [] @ map (\<lambda>i. (nth_fallback MODEL_FALLBACKS ''claude-sonnet'' i, 120))
                  [0 ..< Suc (1000 - length ([] :: (string \<times> nat) list))])"
    by (rule shipped_cycle_runs_to_limit [OF p]) simp_all
  then show ?thesis
    using p by (simp add: call_model_def Let_def t)
qed


section \<open>Stage executor\<close>

lemma collect_response_success:
  "mr_success (collect_response model outcome) = (\<not> call_failed outcome)"
  by (cases outcome) (simp_all add: collect_response_def call_failed_def failed_model_response_def)

text \<open>On a stage with at least one model and a pool of at least one worker the counts
  are as Claim C5 says: one response per model, and the failure and success counts are
  the numbers of calls that failed and that succeeded.\<close>

lemma execute_parallel_counts:
  assumes "models \<noteq> []" and "1 \<le> pe_max_workers pe"
    and "completion_order order (length models)"
  shows "\<exists>result. execute_parallel pe settle order elapsed models = Inr result
           \<and> length (pr_responses result) = length models
           \<and> pr_failure_count result
               = int (card {i. i < length models \<and> call_failed (settle i (models ! i))})
           \<and> pr_success_count result
               = int (length models)
                 - int (card {i. i < length models \<and> call_failed (settle i (models ! i))})"
proof -
  let ?N = "length models"
  let ?f = "\<lambda>i. collect_response (models ! i) (settle i (models ! i))"
  let ?F = "{i. i < ?N \<and> call_failed (settle i (models ! i))}"
  let ?S = "{i. i < ?N \<and> \<not> call_failed (settle i (models ! i))}"
  from assms(3) have d: "distinct order" and s: "set order = {..<?N}"
    by (simp_all add: completion_order_def)
  have len: "length order = ?N"
    using distinct_card [OF d] s by simp
  have "length (filter mr_success (map ?f order)) = length (filter (mr_success \<circ> ?f) order)"
    by (simp add: filter_map)
  also have "\<dots> = card ({i. (mr_success \<circ> ?f) i} \<inter> set order)"
    using d by (rule distinct_length_filter)
  also have "{i. (mr_success \<circ> ?f) i} \<inter> set order = ?S"
    using s by (auto simp: collect_response_success)
  finally have succ: "length (filter mr_success (map ?f order)) = card ?S" .
  have "?S \<union> ?F = {..<?N}" and "?S \<inter> ?F = {}" by auto
  then have "card ?S + card ?F = ?N"
    by (metis card_Un_disjoint card_lessThan finite_Un finite_lessThan)
  then have split: "int (card ?S) = int ?N - int (card ?F)" by linarith
  have pos: "\<not> min (pe_max_workers pe) (int ?N) \<le> 0"
    using assms(1,2) by (cases models) auto
  show ?thesis
    using pos len succ split by (simp add: execute_parallel_def Let_def)
qed

text \<open>
  Claim C5. For every parallel stage over a list of N models in which K calls fail and
  N - K succeed, \<open>execute_parallel\<close> returns a result with exactly N responses, success
  count N - K and failure count K, and never raises on account of a model's failure.
  The code breaks this on the stage with no model: the size of the thread pool is then
  \<open>min(max_workers, 0) = 0\<close>, which the pool refuses, so that the call raises
  \<open>ValueError\<close> where the claim promises a result with no responses and both counts 0.
\<close>

theorem execute_parallel_empty_stage_raises:
  "completion_order [] (length ([] :: string list))
   \<and> execute_parallel (ParallelExecutor_init None 5 120 perplexity) settle [] elapsed []
       = Inl (ValueError ''max_workers must be greater than 0'')"
  by (simp add: completion_order_def execute_parallel_def ParallelExecutor_init_def)


section \<open>Sequential debate\<close>

lemma step2_prompt_length: "length (step2_prompt c1) = 286 + length c1"
  by (simp add: step2_prompt_def)

lemma step3_prompt_length:
  "length (step3_prompt c1 c2 context) = 524 + length c1 + length c2 + length context"
  by (simp add: step3_prompt_def)

lemma step4_prompt_length:
  "length (step4_prompt c1 c2 c3) = 363 + length c1 + length c2 + length c3"
  by (simp add: step4_prompt_def)

lemma step2_prompt_embeds: "str_in c1 (step2_prompt c1)"
  unfolding str_in_iff step2_prompt_def by (metis append.assoc)

text \<open>When the Architect succeeds, the three later prompts are built from the full
  contents of the earlier responses.\<close>

lemma debate_calls:
  assumes "mr_success (exec ''gemini-architect'' (step1_prompt topic focus) 3000 60)"
  shows "snd (execute_diamond_debate exec topic focus context) =
     (let step1 = exec ''gemini-architect'' (step1_prompt topic focus) 3000 60;
          p2 = step2_prompt (mr_content step1);
          step2 = exec ''deepseek-v3'' p2 4000 90;
          p3 = step3_prompt (mr_content step1) (mr_content step2) context;
          step3 = exec ''kimi-researcher'' p3 5000 180;
          p4 = step4_prompt (mr_content step1) (mr_content step2) (mr_content step3)
      in [(''gemini-architect'', step1_prompt topic focus), (''deepseek-v3'', p2),
          (''kimi-researcher'', p3), (''opus-synthesis'', p4)])"
  using assms by (simp add: execute_diamond_debate_def Let_def)

text \<open>
  Claim C8. In the 4-step sequential debate the upstream output embedded into the
  prompt of every step after the first is truncated to a bounded character budget
  (between 500 and 2,000 characters), so that the prompt size does not grow with the
  length of the upstream output. The code of \<open>execute_diamond_debate\<close> breaks this: with
  responses of 3,000 characters each, the Auditor's prompt holds the whole proposal and
  is 3,286 characters long, the Contextualist's is 6,524 and the Judge's 9,363, each
  its template plus the full upstream outputs.
\<close>

theorem debate_prompts_embed_untruncated:
  "map (\<lambda>(model, prompt). (model, length prompt))
     (snd (execute_diamond_debate
        (\<lambda>model prompt max_tokens timeout.
           \<lparr> mr_model = model, mr_content = replicate 3000 (CHR ''x''), mr_success = True,
             mr_latency_seconds = 1, mr_cost = 0, mr_tokens_used = 0, mr_error = None,
             mr_fallback_used = None \<rparr>)
        ''cache design'' None ''''))
   = [(''gemini-architect'', 219), (''deepseek-v3'', 3286),
      (''kimi-researcher'', 6524), (''opus-synthesis'', 9363)]
   \<and> str_in (replicate 3000 (CHR ''x''))
        (snd (snd (execute_diamond_debate
           (\<lambda>model prompt max_tokens timeout.
              \<lparr> mr_model = model, mr_content = replicate 3000 (CHR ''x''), mr_success = True,
                mr_latency_seconds = 1, mr_cost = 0, mr_tokens_used = 0, mr_error = None,
                mr_fallback_used = None \<rparr>)
           ''cache design'' None '''') ! 1))"
proof -
  have l1: "length (step1_prompt ''cache design'' None) = 219"
    by (simp add: step1_prompt_def focus_prompt_def)
  show ?thesis
    by (simp add: debate_calls Let_def l1 step2_prompt_length step3_prompt_length
        step4_prompt_length step2_prompt_embeds)
qed

end
